theory Spec2Isabelle
  imports Complex_Main
begin

section \<open>Python values shared by the pipeline modules\<close>

text \<open>
  Exceptions are values. Every \<^verbatim>\<open>raise\<close>, failed \<^verbatim>\<open>assert\<close> and failing
  built-in operation of the modelled functions is the \<open>Inl\<close> branch of a sum. An
  exception carries its message where the message is a literal of the sources;
  \<open>KeyError\<close> carries the missing key and \<open>UnboundLocalError\<close> the name of the
  variable.
\<close>

datatype py_error =
    ValueError string
  | AssertionError
  | IndexError
  | KeyError string
  | TypeError string
  | FileNotFoundError string
  | DataJointError string
  | UnboundLocalError string

text \<open>
  The recorded values are \<^verbatim>\<open>float64\<close> after \<^verbatim>\<open>astype(float)\<close>. A float is
  NaN or a rational number (every finite double is one); the two infinities are
  outside the model (no function below tests for them). Comparisons of doubles are
  exact, so they are the comparisons of the rationals. Arithmetic on doubles rounds:
  where the modelled code multiplies floats, the product is a parameter of the model
  (\<open>float64_mul\<close> below), not the exact product.
\<close>

datatype py_float = NaN | Finite rat

fun isnan :: "py_float \<Rightarrow> bool" where
  "isnan NaN = True"
| "isnan (Finite _) = False"

section \<open>experiment.py: PhotostimBrainRegion\<close>

text \<open>
  A \<^verbatim>\<open>Session\<close> is keyed by (subject_id, session), \<^verbatim>\<open>Photostim\<close> by
  the session key and the protocol number \<^verbatim>\<open>photo_stim\<close>; a
  \<^verbatim>\<open>PhotostimLocation\<close> part row carries the master key, its coordinates
  (\<^verbatim>\<open>decimal\<close> columns, exact rationals) and the target brain area.
\<close>

record session_key =
  subject_id :: int
  session :: int

record photostim_key = session_key +
  photo_stim :: int

record photostim_location =
  master :: photostim_key
  skull_reference :: string
  ap_location :: rat
  ml_location :: rat
  depth :: rat
  theta :: rat
  phi :: rat
  brain_area :: string

record brain_region_row =
  region_key :: photostim_key
  stim_brain_area :: string
  stim_laterality :: string

text \<open>\<^verbatim>\<open>Photostim.PhotostimLocation & key\<close>: the part rows of one protocol.\<close>

definition restrict_locations ::
  "photostim_location list \<Rightarrow> photostim_key \<Rightarrow> photostim_location list" where
  "restrict_locations tbl key = filter (\<lambda>r. master r = key) tbl"

text \<open>
  The \<^verbatim>\<open>if / elif / elif / else\<close> chain of \<^verbatim>\<open>make\<close> over the medial
  coordinates; \<^verbatim>\<open>.any()\<close> is \<open>list_ex\<close>, \<^verbatim>\<open>.all()\<close> is \<open>list_all\<close>
  (true of the empty array, as in numpy). The \<^verbatim>\<open>else\<close> branch first asserts that
  every coordinate is 0.
\<close>

definition laterality_of :: "rat list \<Rightarrow> py_error + string" where
  "laterality_of ml_locations =
     (if list_ex (\<lambda>m. 0 < m) ml_locations \<and> list_ex (\<lambda>m. m < 0) ml_locations
        then Inr ''both''
      else if list_all (\<lambda>m. 0 < m) ml_locations then Inr ''right''
      else if list_all (\<lambda>m. m < 0) ml_locations then Inr ''left''
      else if list_all (\<lambda>m. m = 0) ml_locations
        then Inl (ValueError ''Ambiguous hemisphere: ML locations are all 0...'')
      else Inl AssertionError)"

text \<open>
  \<^verbatim>\<open>PhotostimBrainRegion.make\<close>. The table of computed rows is passed in and the
  table after \<^verbatim>\<open>insert1\<close> is returned; an exception (\<open>Inl\<close>) is raised before
  the only write, so it leaves the table as it was. \<^verbatim>\<open>brain_areas[0]\<close> is
  evaluated when the row is built and raises \<^verbatim>\<open>IndexError\<close> on an empty fetch.
\<close>

definition PhotostimBrainRegion_make ::
  "photostim_location list \<Rightarrow> photostim_key \<Rightarrow> brain_region_row list
     \<Rightarrow> py_error + brain_region_row list" where
  "PhotostimBrainRegion_make PhotostimLocation key self =
     (let rows = restrict_locations PhotostimLocation key;
          brain_areas = map brain_area rows;
          ml_locations = map ml_location rows
      in if length (remdups brain_areas) > 1
           then Inl (ValueError
             ''Multiple different brain areas for one photostim protocol is unsupported'')
         else
           (case laterality_of ml_locations of
              Inl e \<Rightarrow> Inl e
            | Inr lat \<Rightarrow>
                (case brain_areas of
                   [] \<Rightarrow> Inl IndexError
                 | a # _ \<Rightarrow>
                     Inr (self @ [\<lparr>region_key = key, stim_brain_area = a,
                                    stim_laterality = lat\<rparr>]))))"

text \<open>The table as a run of \<^verbatim>\<open>make\<close> leaves it.\<close>

definition table_after :: "'r list \<Rightarrow> py_error + 'r list \<Rightarrow> 'r list" where
  "table_after self res = (case res of Inl _ \<Rightarrow> self | Inr t \<Rightarrow> t)"

text \<open>
  A location row of protocol \<open>key\<close> with the given anterior-posterior and medial
  coordinates and area (rows of one protocol differ in a coordinate: the coordinates
  are part of the primary key).
\<close>

definition location_at ::
  "photostim_key \<Rightarrow> rat \<Rightarrow> rat \<Rightarrow> string \<Rightarrow> photostim_location" where
  "location_at key ap ml area =
     \<lparr>master = key, skull_reference = ''Bregma'', ap_location = ap, ml_location = ml,
      depth = 0, theta = 0, phi = 0, brain_area = area\<rparr>"

definition protocol_1 :: photostim_key where
  "protocol_1 = \<lparr>subject_id = 1, session = 1, photo_stim = 1\<rparr>"

section \<open>experiment.py: Breathing\<close>

subsection \<open>numpy indexing and slicing\<close>

text \<open>
  \<^verbatim>\<open>a[i]\<close> on a one-dimensional array: a negative index counts from the end, an
  index outside the array raises \<^verbatim>\<open>IndexError\<close>.
\<close>

definition np_index :: "'a list \<Rightarrow> int \<Rightarrow> py_error + 'a" where
  "np_index xs i =
     (let n = int (length xs); j = (if i < 0 then i + n else i)
      in if 0 \<le> j \<and> j < n then Inr (xs ! nat j) else Inl IndexError)"

text \<open>
  \<^verbatim>\<open>a[start:stop]\<close>: a negative bound counts from the end, both bounds are then
  clipped to the array, and the slice is empty when the bounds cross. Slicing never
  raises.
\<close>

definition py_slice :: "'a list \<Rightarrow> int \<Rightarrow> int \<Rightarrow> 'a list" where
  "py_slice xs start stop =
     (let n = int (length xs);
          lo = (if start < 0 then max (start + n) 0 else min start n);
          hi = (if stop < 0 then max (stop + n) 0 else min stop n)
      in take (nat (hi - lo)) (drop (nat lo) xs))"

text \<open>\<^verbatim>\<open>data[:, start:stop].flatten()\<close> on a (channels x samples) array, row-major.\<close>

definition slice_columns_flatten :: "'a list list \<Rightarrow> int \<Rightarrow> int \<Rightarrow> 'a list" where
  "slice_columns_flatten data start stop = concat (map (\<lambda>row. py_slice row start stop) data)"

text \<open>\<^verbatim>\<open>rawData[chanList, :]\<close>: the listed channel rows, in the order listed.\<close>

fun select_channels :: "'a list list \<Rightarrow> nat list \<Rightarrow> py_error + 'a list list" where
  "select_channels rawData [] = Inr []"
| "select_channels rawData (c # cs) =
     (case np_index rawData (int c) of
        Inl e \<Rightarrow> Inl e
      | Inr row \<Rightarrow>
          (case select_channels rawData cs of
             Inl e \<Rightarrow> Inl e
           | Inr rows \<Rightarrow> Inr (row # rows)))"

text \<open>
  \<^verbatim>\<open>.astype(int)\<close> on a finite float: truncation towards zero. In \<^verbatim>\<open>make\<close> it is
  applied to the float64 product \<^verbatim>\<open>trial_start_times * sRate\<close>.
\<close>

definition astype_int :: "rat \<Rightarrow> int" where
  "astype_int x = (if 0 \<le> x then \<lfloor>x\<rfloor> else \<lceil>x\<rceil>)"

subsection \<open>The per-trial segmentation loop\<close>

text \<open>
  The body of \<^verbatim>\<open>for idx in range(len(trial_starts_indices))\<close>, one equation per
  iteration, with \<^verbatim>\<open>all_trials_data\<close> as the accumulator. The end index is the next
  trial's start while the current start is below the last start, and \<^verbatim>\<open>-1\<close>
  otherwise.
\<close>

fun segment_loop ::
  "int list \<Rightarrow> 'a list list \<Rightarrow> nat list \<Rightarrow> 'a list list \<Rightarrow> py_error + 'a list list" where
  "segment_loop trial_starts_indices breathing_data [] all_trials_data = Inr all_trials_data"
| "segment_loop trial_starts_indices breathing_data (idx # rest) all_trials_data =
     (case np_index trial_starts_indices (int idx) of
        Inl e \<Rightarrow> Inl e
      | Inr start_idx \<Rightarrow>
          (case np_index trial_starts_indices (- 1) of
             Inl e \<Rightarrow> Inl e
           | Inr last_start \<Rightarrow>
               (case (if start_idx < last_start
                      then np_index trial_starts_indices (int idx + 1)
                      else Inr (- 1)) of
                  Inl e \<Rightarrow> Inl e
                | Inr end_idx \<Rightarrow>
                    segment_loop trial_starts_indices breathing_data rest
                      (all_trials_data @
                         [slice_columns_flatten breathing_data start_idx end_idx]))))"

definition segment_trials :: "int list \<Rightarrow> 'a list list \<Rightarrow> py_error + 'a list list" where
  "segment_trials trial_starts_indices breathing_data =
     segment_loop trial_starts_indices breathing_data
       [0 ..< length trial_starts_indices] []"

subsection \<open>The collaborators of \<^verbatim>\<open>make\<close>\<close>

text \<open>
  \<^verbatim>\<open>lab\<close>, \<^verbatim>\<open>pipeline.ingest.ephys\<close> and \<^verbatim>\<open>readSGLX\<close> are not part of the
  modelled sources, so what they return is a parameter of \<^verbatim>\<open>make\<close>: the two
  \<^verbatim>\<open>fetch1\<close> results per session key, the configured rig paths, the session
  directory found under a rig path (\<open>None\<close> when there is none), the trial start
  times decoded from the bitcode of a session directory, and, per file path, the
  acquisition metadata, its sample rate, the memory-mapped int16 samples
  (channels x samples) and the two gain corrections.
\<close>

type_synonym sglx_meta = "string \<rightharpoonup> string"

record collaborators =
  water_restriction_number :: "session_key \<Rightarrow> py_error + string"
  sess_datetime :: "session_key \<Rightarrow> py_error + string"
  get_ephys_paths :: "string list"
  get_sess_dir :: "string \<Rightarrow> string \<Rightarrow> string \<Rightarrow> string option"
  build_bitcode :: "string \<Rightarrow> py_error + (string list \<times> rat list)"
  readMeta :: "string \<Rightarrow> py_error + sglx_meta"
  SampRate :: "sglx_meta \<Rightarrow> py_error + rat"
  makeMemMapRaw :: "string \<Rightarrow> sglx_meta \<Rightarrow> py_error + int list list"
  GainCorrectIM :: "int list list \<Rightarrow> nat list \<Rightarrow> sglx_meta \<Rightarrow> py_error + rat list list"
  GainCorrectNI :: "int list list \<Rightarrow> nat list \<Rightarrow> sglx_meta \<Rightarrow> py_error + rat list list"

text \<open>The \<^verbatim>\<open>for rigpath in rigpaths: ... break / else: raise\<close> search.\<close>

fun find_session_ephys_dir ::
  "collaborators \<Rightarrow> string list \<Rightarrow> string \<Rightarrow> string \<Rightarrow> string option" where
  "find_session_ephys_dir ext [] h2o dt = None"
| "find_session_ephys_dir ext (rigpath # rigpaths) h2o dt =
     (case get_sess_dir ext rigpath h2o dt of
        Some d \<Rightarrow> Some d
      | None \<Rightarrow> find_session_ephys_dir ext rigpaths h2o dt)"

text \<open>
  Everything of \<^verbatim>\<open>make\<close> that depends on the session key: the two fetches, the
  directory search and \<^verbatim>\<open>build_bitcode\<close>, giving \<^verbatim>\<open>trial_start_times\<close>.
\<close>

definition session_trial_start_times :: "collaborators \<Rightarrow> session_key \<Rightarrow> py_error + rat list" where
  "session_trial_start_times ext key =
     (case water_restriction_number ext key of
        Inl e \<Rightarrow> Inl e
      | Inr h2o \<Rightarrow>
          (case sess_datetime ext key of
             Inl e \<Rightarrow> Inl e
           | Inr dt \<Rightarrow>
               (case find_session_ephys_dir ext (get_ephys_paths ext) h2o dt of
                  None \<Rightarrow>
                    Inl (FileNotFoundError
                      (''Error - No session folder found for '' @ h2o @ ''/'' @ dt))
                | Some session_ephys_dir \<Rightarrow>
                    (case build_bitcode ext session_ephys_dir of
                       Inl e \<Rightarrow> Inl e
                     | Inr (bitcodes, trial_start_times) \<Rightarrow> Inr trial_start_times))))"

text \<open>
  The path literal assigned to \<^verbatim>\<open>binFullPath\<close> (its components are separated by
  the backslash character, code 0x5C), and \<^verbatim>\<open>chanList = [2]\<close>.
\<close>

definition path_join :: "string list \<Rightarrow> string" where
  "path_join parts = concat (map (\<lambda>p. CHR 0x5C # p) parts)"

definition binFullPath :: string where
  "binFullPath =
     ''F:'' @ path_join [''map'', ''test_data_full'', ''ephys'', ''DL004'',
                         ''catgt_20210308_g0'', ''20210308_g0_t0.nidq.bin'']"

definition chanList :: "nat list" where
  "chanList = [2]"

text \<open>
  The float64 product of numpy, \<^verbatim>\<open>x * y\<close> on doubles: the exact product rounded to
  a double. It is a parameter \<open>float64_mul\<close> of everything below that multiplies, so
  that no statement rests on a product being exact.
\<close>

type_synonym float64_product = "rat \<Rightarrow> rat \<Rightarrow> rat"

text \<open>\<^verbatim>\<open>c * array\<close>: every sample multiplied by the scalar, in float64.\<close>

definition scale_array :: "float64_product \<Rightarrow> rat \<Rightarrow> rat list list \<Rightarrow> rat list list" where
  "scale_array float64_mul c data = map (map (float64_mul c)) data"

text \<open>
  The gain branch: \<^verbatim>\<open>meta['typeThis']\<close> (a missing key raises \<^verbatim>\<open>KeyError\<close>)
  selects the correction, whose result is multiplied by \<^verbatim>\<open>1e6\<close> or \<^verbatim>\<open>1e3\<close>.
\<close>

definition gain_correct ::
  "float64_product \<Rightarrow> collaborators \<Rightarrow> int list list \<Rightarrow> nat list \<Rightarrow> sglx_meta
     \<Rightarrow> py_error + rat list list" where
  "gain_correct float64_mul ext breathing_data chans meta =
     (case meta ''typeThis'' of
        None \<Rightarrow> Inl (KeyError ''typeThis'')
      | Some typeThis \<Rightarrow>
          if typeThis = ''imec''
          then (case GainCorrectIM ext breathing_data chans meta of
                  Inl e \<Rightarrow> Inl e
                | Inr corrected \<Rightarrow> Inr (scale_array float64_mul 1000000 corrected))
          else (case GainCorrectNI ext breathing_data chans meta of
                  Inl e \<Rightarrow> Inl e
                | Inr corrected \<Rightarrow> Inr (scale_array float64_mul 1000 corrected)))"

text \<open>
  \<^verbatim>\<open>make\<close> from its first statement to the end of the segmentation loop: the value
  of \<^verbatim>\<open>all_trials_data\<close>.
\<close>

definition Breathing_all_trials_data ::
  "float64_product \<Rightarrow> collaborators \<Rightarrow> session_key \<Rightarrow> py_error + rat list list" where
  "Breathing_all_trials_data float64_mul ext key =
     (case session_trial_start_times ext key of
        Inl e \<Rightarrow> Inl e
      | Inr trial_start_times \<Rightarrow>
     (case readMeta ext binFullPath of
        Inl e \<Rightarrow> Inl e
      | Inr meta \<Rightarrow>
     (case SampRate ext meta of
        Inl e \<Rightarrow> Inl e
      | Inr sRate \<Rightarrow>
     (case makeMemMapRaw ext binFullPath meta of
        Inl e \<Rightarrow> Inl e
      | Inr rawData \<Rightarrow>
     (let trial_starts_indices =
            map (\<lambda>t. astype_int (float64_mul t sRate)) trial_start_times in
     (case select_channels rawData chanList of
        Inl e \<Rightarrow> Inl e
      | Inr breathing_data \<Rightarrow>
     (case gain_correct float64_mul ext breathing_data chanList meta of
        Inl e \<Rightarrow> Inl e
      | Inr corrected \<Rightarrow> segment_trials trial_starts_indices corrected)))))))"

text \<open>
  The last statement is \<^verbatim>\<open>self.insert[all_trials_data]\<close>: the bound method
  \<^verbatim>\<open>self.insert\<close> is looked up and then subscripted. A method object has no
  \<^verbatim>\<open>__getitem__\<close>, so the subscription raises \<^verbatim>\<open>TypeError\<close> whatever the
  subscript; a call \<^verbatim>\<open>self.insert(rows)\<close> would have appended the rows. The
  message of the exception has the type name between apostrophes (character 0x27).
\<close>

definition method_not_subscriptable :: string where
  "method_not_subscriptable =
     CHR 0x27 # ''method'' @ CHR 0x27 # '' object is not subscriptable''"

record breathing_row =
  trial_of :: int
  breathing :: "rat list"
  breathing_timestamps :: "rat list"

datatype 'r py_attribute = BoundMethod "'r list \<Rightarrow> 'r list"

fun py_call :: "'r py_attribute \<Rightarrow> 'r list \<Rightarrow> py_error + 'r list" where
  "py_call (BoundMethod f) arg = Inr (f arg)"

fun py_getitem :: "'r py_attribute \<Rightarrow> 'x \<Rightarrow> py_error + 'r list" where
  "py_getitem (BoundMethod f) item = Inl (TypeError method_not_subscriptable)"

definition self_insert :: "'r list \<Rightarrow> 'r py_attribute" where
  "self_insert self = BoundMethod (\<lambda>rows. self @ rows)"

definition Breathing_make ::
  "float64_product \<Rightarrow> collaborators \<Rightarrow> session_key \<Rightarrow> breathing_row list
     \<Rightarrow> py_error + breathing_row list" where
  "Breathing_make float64_mul ext key self =
     (case Breathing_all_trials_data float64_mul ext key of
        Inl e \<Rightarrow> Inl e
      | Inr all_trials_data \<Rightarrow> py_getitem (self_insert self) all_trials_data)"

text \<open>
  The end index the loop computes at iteration \<open>idx\<close>, as a function of the start
  indices alone (iteration \<open>idx\<close> exists, so the subscripts are in range).
\<close>

definition end_index :: "int list \<Rightarrow> nat \<Rightarrow> int" where
  "end_index starts idx =
     (if starts ! idx < last starts then starts ! Suc idx else - 1)"

text \<open>The samples of one channel row at the positions \<open>a \<le> p < b\<close>.\<close>

definition samples_between :: "'a list \<Rightarrow> nat \<Rightarrow> nat \<Rightarrow> 'a list" where
  "samples_between row a b = map ((!) row) [a ..< b]"

subsection \<open>An example acquisition\<close>

text \<open>
  A rig with session folders (one per session date) under its second path only;
  every session decodes to trial starts at 0 s and 1 s; the file at
  \<^verbatim>\<open>binFullPath\<close> is an analog-input (nidq) recording at 2 Hz with three channels
  of five samples, channel 2 holding 10 .. 50; the probe correction divides a sample
  by 16 and the analog-input correction by 8. Any other path holds no readable
  file. All numbers of the example are small dyadic rationals, whose float64
  products are exact: on them the float64 product is the product \<open>exact_mul\<close>.
\<close>

definition exact_mul :: float64_product where
  "exact_mul x y = x * y"

definition example_meta :: sglx_meta where
  "example_meta = [''typeThis'' \<mapsto> ''nidq'', ''niSampRate'' \<mapsto> ''2'']"

definition example_raw :: "int list list" where
  "example_raw = [[0, 0, 0, 0, 0], [1, 1, 1, 1, 1], [10, 20, 30, 40, 50]]"

definition example_collaborators :: collaborators where
  "example_collaborators =
     \<lparr>water_restriction_number = (\<lambda>key. Inr ''DL004''),
      sess_datetime = (\<lambda>key.
         Inr (if session key = 1 then ''2021-03-08 10:00:00'' else ''2021-03-09 10:00:00'')),
      get_ephys_paths = [''F:/rig1'', ''F:/rig2''],
      get_sess_dir = (\<lambda>rigpath h2o dt.
         if rigpath = ''F:/rig2'' then Some (rigpath @ ''/'' @ h2o @ ''/'' @ take 10 dt)
         else None),
      build_bitcode = (\<lambda>dir. Inr ([''0101'', ''0110''], [0, 1])),
      readMeta = (\<lambda>path.
         if path = binFullPath then Inr example_meta else Inl (FileNotFoundError path)),
      SampRate = (\<lambda>meta. Inr 2),
      makeMemMapRaw = (\<lambda>path meta.
         if path = binFullPath then Inr example_raw else Inl (FileNotFoundError path)),
      GainCorrectIM = (\<lambda>data chans meta. Inr (map (map (\<lambda>x. of_int x / 16)) data)),
      GainCorrectNI = (\<lambda>data chans meta. Inr (map (map (\<lambda>x. of_int x / 8)) data))\<rparr>"

text \<open>The same rig and samples when the file at \<^verbatim>\<open>binFullPath\<close> declares a probe.\<close>

definition imec_collaborators :: collaborators where
  "imec_collaborators =
     example_collaborators
       \<lparr>readMeta := (\<lambda>path.
          if path = binFullPath then Inr [''typeThis'' \<mapsto> ''imec'']
          else Inl (FileNotFoundError path))\<rparr>"

text \<open>
  The same rig when every other path holds a readable probe (imec) recording of
  different samples.
\<close>

definition other_files_collaborators :: collaborators where
  "other_files_collaborators =
     example_collaborators
       \<lparr>readMeta := (\<lambda>path.
          if path = binFullPath then Inr example_meta else Inr [''typeThis'' \<mapsto> ''imec'']),
        makeMemMapRaw := (\<lambda>path meta.
          if path = binFullPath then Inr example_raw else Inr [[7, 7], [8, 8], [9, 9]])\<rparr>"

definition session_1 :: session_key where
  "session_1 = \<lparr>subject_id = 1, session = 1\<rparr>"

definition session_2 :: session_key where
  "session_2 = \<lparr>subject_id = 1, session = 2\<rparr>"

section \<open>plot/unit_psth.py\<close>

subsection \<open>Tables the plotting functions query\<close>

text \<open>
  A unit key extends the session key; a trial is keyed by the session key and its
  1-based number. \<^verbatim>\<open>ephys.TrialEvent\<close> and \<^verbatim>\<open>experiment.BehaviorTrial\<close> rows
  carry a trial key. Restricting a table by a key (\<^verbatim>\<open>table & unit_key\<close>) keeps
  the rows that agree with the key on the attributes both have: here the subject and
  the session number.
\<close>

record unit_key = session_key +
  insertion_number :: int
  clustering_method :: string
  unit :: int

record trial_key = session_key +
  trial :: int

record trial_event = trial_key +
  trial_event_id :: int
  trial_event_type :: string
  trial_event_time :: rat

record behavior_trial = trial_key +
  task :: string
  task_protocol :: int
  trial_instruction :: string
  early_lick :: string
  outcome :: string
  auto_water :: bool
  free_water :: bool

definition same_session :: "'a session_key_scheme \<Rightarrow> 'b session_key_scheme \<Rightarrow> bool" where
  "same_session row key \<longleftrightarrow> subject_id row = subject_id key \<and> session row = session key"

text \<open>\<^verbatim>\<open>.proj()\<close>: a row reduced to its primary key.\<close>

definition proj :: "'a trial_key_scheme \<Rightarrow> trial_key" where
  "proj row = \<lparr>subject_id = subject_id row, session = session row, trial = trial row\<rparr>"

subsection \<open>The alignment-type fallback\<close>

text \<open>\<^verbatim>\<open>needle in haystack\<close> on strings: the needle occurs as a contiguous run.\<close>

fun py_in :: "string \<Rightarrow> string \<Rightarrow> bool" where
  "py_in needle [] = (needle = [])"
| "py_in needle (c # cs) = (take (length needle) (c # cs) = needle \<or> py_in needle cs)"

text \<open>
  \<^verbatim>\<open>ephys.TrialEvent & unit_key & 'trial_event_type = "zaberready"'\<close>; the query is
  used as a truth value, which is true when it has at least one row.
\<close>

definition zaberready_events :: "trial_event list \<Rightarrow> unit_key \<Rightarrow> trial_event list" where
  "zaberready_events TrialEvent key =
     filter (\<lambda>e. same_session e key \<and> trial_event_type e = ''zaberready'') TrialEvent"

text \<open>
  The first statement of both foraging plots: without a zaber feedback event the
  list comprehension rewrites \<^verbatim>\<open>align_types\<close>, otherwise the list is kept.
\<close>

definition fallback_align_types ::
  "trial_event list \<Rightarrow> unit_key \<Rightarrow> string list \<Rightarrow> string list" where
  "fallback_align_types TrialEvent key align_types =
     (if zaberready_events TrialEvent key = []
      then map (\<lambda>a. if py_in ''trial_start'' a then a @ ''_bitcode'' else a) align_types
      else align_types)"

definition plot_unit_psth_choice_outcome_align_types ::
  "trial_event list \<Rightarrow> unit_key \<Rightarrow> string list \<Rightarrow> string list" where
  "plot_unit_psth_choice_outcome_align_types = fallback_align_types"

text \<open>The default value of the \<^verbatim>\<open>align_types\<close> parameter of both plots.\<close>

definition default_align_types :: "string list" where
  "default_align_types =
     [''trial_start'', ''go_cue'', ''first_lick_after_go_cue'', ''iti_start'',
      ''next_trial_start'']"

subsection \<open>The library call \<^verbatim>\<open>pd.qcut(x, q, labels=False, duplicates='drop')\<close>\<close>

text \<open>
  pandas is a library the plot calls, not part of the modelled sources, so the call
  is a parameter of the plot (type \<open>qcut_call\<close>): it returns one rank per value,
  NaN (\<open>None\<close>) or a 0-based bin number, or raises.
\<close>

type_synonym qcut_call = "py_float list \<Rightarrow> nat \<Rightarrow> py_error + nat option list"

text \<open>
  \<open>pd_qcut\<close> is the library's algorithm with the edge arithmetic done on exact
  rationals: an empty series raises \<^verbatim>\<open>IndexError\<close>; the \<open>q + 1\<close> bin edges are the
  quantiles \<open>0, 1/q, ..., 1\<close> of the finite values with linear interpolation between
  neighbours of the sorted values; repeated edges are dropped (unless there are just
  two edges); a value's bin is found by a left binary search over the edges, the
  lowest edge belonging to the first bin; a value outside every bin, and NaN, gets
  the rank NaN, any other its bin number. The library computes the quantile
  positions and the interpolation in float64, so its edges are those of \<open>pd_qcut\<close>
  where that arithmetic is exact and can differ by a rounding error elsewhere
  (which can split tied values differently). A constant series is a case where
  they agree: every interpolation is between two equal values, and every edge is
  that value in float64 as well. \<open>pd_qcut\<close> is used below for constant series and
  for the series 1, 2, 3 with two quantiles (positions 0, 1, 2: no rounding).
\<close>

definition finite_values :: "py_float list \<Rightarrow> rat list" where
  "finite_values xs = concat (map (\<lambda>x. case x of NaN \<Rightarrow> [] | Finite v \<Rightarrow> [v]) xs)"

definition quantile_score :: "rat list \<Rightarrow> rat \<Rightarrow> rat" where
  "quantile_score values quantile =
     (let idx = quantile * of_nat (length values - 1);
          lo = nat \<lfloor>idx\<rfloor>;
          fraction = idx - of_int \<lfloor>idx\<rfloor>
      in if fraction = 0 then values ! lo
         else values ! lo + (values ! Suc lo - values ! lo) * fraction)"

definition unique :: "'a list \<Rightarrow> 'a list" where
  "unique xs = rev (remdups (rev xs))"

definition qcut_bins :: "rat list \<Rightarrow> nat \<Rightarrow> rat list" where
  "qcut_bins values q =
     (let bins = map (\<lambda>j. quantile_score (sort values) (of_nat j / of_nat q)) [0 ..< Suc q]
      in if length (unique bins) < length bins \<and> length bins \<noteq> 2 then unique bins else bins)"

definition bin_rank :: "rat list \<Rightarrow> py_float \<Rightarrow> nat option" where
  "bin_rank bins x =
     (case x of
        NaN \<Rightarrow> None
      | Finite v \<Rightarrow>
          (let ids = (if v = hd bins then 1 else length (filter (\<lambda>b. b < v) bins))
           in if ids = length bins \<or> ids = 0 then None else Some (ids - 1)))"

definition pd_qcut :: qcut_call where
  "pd_qcut xs q =
     (if xs = [] then Inl IndexError
      else if finite_values xs = [] then Inr (map (\<lambda>x. None) xs)
      else Inr (map (bin_rank (qcut_bins (finite_values xs) q)) xs))"

subsection \<open>The quantile ranks of the latent variable\<close>

text \<open>
  The data frame of \<^verbatim>\<open>_get_unit_independent_variable\<close> has one row per trial with
  the trial number and the latent variable; \<^verbatim>\<open>df['quantile_rank'] = ...\<close> adds a
  column.
\<close>

record latent_row =
  lv_trial :: int
  lv_value :: py_float

record ranked_row = latent_row +
  quantile_rank :: "nat option"

text \<open>
  The guard and the cut. If any value is NaN the function prints its message and
  returns \<^verbatim>\<open>None\<close>: no figure, no ranks. Otherwise the whole series goes to
  \<^verbatim>\<open>pd.qcut\<close>; an exception of the call propagates, and of its ranks every row
  gets its own and \<^verbatim>\<open>n_quantile\<close> becomes the number of distinct ranks (NaN
  counting as one).
\<close>

datatype quantile_ranks = Printed_and_returned string | Ranked "ranked_row list" nat

definition add_quantile_rank :: "latent_row \<Rightarrow> nat option \<Rightarrow> ranked_row" where
  "add_quantile_rank r k = \<lparr>lv_trial = lv_trial r, lv_value = lv_value r, quantile_rank = k\<rparr>"

definition cut_into_quantiles ::
  "qcut_call \<Rightarrow> latent_row list \<Rightarrow> nat \<Rightarrow> py_error + quantile_ranks" where
  "cut_into_quantiles qcut df n_quantile =
     (if list_ex isnan (map lv_value df)
      then Inr (Printed_and_returned ''No latent variable data or too few unique values'')
      else (case qcut (map lv_value df) n_quantile of
              Inl e \<Rightarrow> Inl e
            | Inr ranks \<Rightarrow>
                Inr (Ranked (map2 add_quantile_rank df ranks) (length (unique ranks)))))"

subsection \<open>The trials of one quantile group\<close>

text \<open>
  \<^verbatim>\<open>trial_num = df[df.quantile_rank == rank].copy(); trial_num.trial += offset\<close>,
  then \<^verbatim>\<open>(experiment.BehaviorTrial & unit_key & trial_num).proj()\<close>: the behaviour
  trials of the unit's session whose number is one of the shifted numbers.
\<close>

definition trial_num :: "ranked_row list \<Rightarrow> nat \<Rightarrow> int \<Rightarrow> ranked_row list" where
  "trial_num df rank offset =
     map (\<lambda>r. r\<lparr>lv_trial := lv_trial r + offset\<rparr>)
       (filter (\<lambda>r. quantile_rank r = Some rank) df)"

definition this_trials ::
  "behavior_trial list \<Rightarrow> unit_key \<Rightarrow> ranked_row list \<Rightarrow> nat \<Rightarrow> int \<Rightarrow> trial_key list" where
  "this_trials BehaviorTrial key df rank offset =
     map proj
       (filter (\<lambda>b. same_session b key \<and>
                     list_ex (\<lambda>r. lv_trial r = trial b) (trial_num df rank offset))
          BehaviorTrial)"

text \<open>The trial numbers of the unit's session, and those of one quantile group.\<close>

definition available_trials :: "behavior_trial list \<Rightarrow> unit_key \<Rightarrow> int list" where
  "available_trials BehaviorTrial key =
     map trial (filter (\<lambda>b. same_session b key) BehaviorTrial)"

definition group_trials :: "ranked_row list \<Rightarrow> nat \<Rightarrow> int list" where
  "group_trials df rank = map lv_trial (filter (\<lambda>r. quantile_rank r = Some rank) df)"

subsection \<open>\<^verbatim>\<open>plot_unit_psth_latent_variable_quantile\<close>\<close>

text \<open>
  The calls the plot makes outside the modelled sources: \<^verbatim>\<open>pd.qcut\<close>; the
  \<^verbatim>\<open>fetch1\<close> calls and \<^verbatim>\<open>fig.text\<close> that write the header of a new figure
  (the first exception one of them raises, \<open>None\<close> when all return); the PSTH
  builder \<^verbatim>\<open>compute_unit_psth_and_raster\<close> per unit, trial set and alignment
  type; and the drawing of one alignment type's axis (the event-time lookup,
  \<^verbatim>\<open>_plot_psths\<close> and the title). For the last three only whether they raise
  matters here.
\<close>

record plot_calls =
  qcut :: qcut_call
  figure_header :: "py_error option"
  compute_unit_psth_and_raster :: "unit_key \<Rightarrow> trial_key list \<Rightarrow> string \<Rightarrow> py_error option"
  draw_axis :: "string \<Rightarrow> py_error option"

text \<open>The first exception of a sequence of calls, made in order.\<close>

fun first_raised :: "py_error option list \<Rightarrow> py_error option" where
  "first_raised [] = None"
| "first_raised (Some e # calls) = Some e"
| "first_raised (None # calls) = first_raised calls"

text \<open>
  The \<^verbatim>\<open>if axs is None:\<close> block. \<^verbatim>\<open>fig.subplots(1, len(align_types))\<close> raises
  \<^verbatim>\<open>ValueError\<close> for zero columns; otherwise the axes have one column per
  alignment type and the header is written. The result is the number of columns of
  \<^verbatim>\<open>axs\<close>.
\<close>

definition create_axes :: "plot_calls \<Rightarrow> nat \<Rightarrow> py_error + nat" where
  "create_axes lib n_align_types =
     (if n_align_types = 0
      then Inl (ValueError ''Number of columns must be a positive integer, not 0'')
      else (case figure_header lib of
              Some e \<Rightarrow> Inl e
            | None \<Rightarrow> Inr n_align_types))"

text \<open>
  The loop \<^verbatim>\<open>for ax_i, align_type in enumerate(align_types)\<close>, one equation per
  iteration: the offset of \<^verbatim>\<open>psth_foraging.AlignType\<close> (a \<^verbatim>\<open>fetch1\<close>, which
  raises when the name has no row); per rank the trials of the group and the call of
  the builder on them; \<^verbatim>\<open>axs[0, ax_i]\<close>, which raises \<^verbatim>\<open>IndexError\<close> when the
  axes have too few columns; the drawing. The result lists, per alignment type, the
  trial sets handed to the builder.
\<close>

type_synonym align_type_table = "string \<rightharpoonup> int \<times> rat \<times> rat"

fun groups_per_align_type ::
  "plot_calls \<Rightarrow> align_type_table \<Rightarrow> behavior_trial list \<Rightarrow> unit_key \<Rightarrow> ranked_row list
     \<Rightarrow> nat \<Rightarrow> nat \<Rightarrow> nat \<Rightarrow> string list
     \<Rightarrow> py_error + (string \<times> trial_key list list) list" where
  "groups_per_align_type lib AlignType BehaviorTrial key df n_quantile n_columns ax_i [] =
     Inr []"
| "groups_per_align_type lib AlignType BehaviorTrial key df n_quantile n_columns ax_i
       (align_type # rest) =
     (case AlignType align_type of
        None \<Rightarrow> Inl (DataJointError ''fetch1 should only return one tuple. 0 tuples found'')
      | Some (offset, xlim) \<Rightarrow>
          (let groups = map (\<lambda>rank. this_trials BehaviorTrial key df rank offset)
                          [0 ..< n_quantile]
           in case first_raised
                     (map (\<lambda>trials. compute_unit_psth_and_raster lib key trials align_type)
                        groups) of
                Some e \<Rightarrow> Inl e
              | None \<Rightarrow>
                  if n_columns \<le> ax_i then Inl IndexError
                  else (case draw_axis lib align_type of
                          Some e \<Rightarrow> Inl e
                        | None \<Rightarrow>
                            (case groups_per_align_type lib AlignType BehaviorTrial key df
                                    n_quantile n_columns (Suc ax_i) rest of
                               Inl e \<Rightarrow> Inl e
                             | Inr others \<Rightarrow> Inr ((align_type, groups) # others)))))"

text \<open>
  The plot after its first statement, on the alignment types that statement leaves.
  \<open>df\<close> is the frame \<^verbatim>\<open>_get_unit_independent_variable\<close> returned; \<open>axs\<close> is
  \<open>None\<close> or the number of columns of the one-row axes array passed in. After
  the loop, \<^verbatim>\<open>axs[0, :]\<close> is rescaled (its first element is read, which raises
  \<^verbatim>\<open>IndexError\<close> when there is no column) and \<^verbatim>\<open>ax_psth.legend\<close> is called,
  which raises \<^verbatim>\<open>UnboundLocalError\<close> when the loop had no iteration. The result is
  the printed message when the guard returned, or the trial sets that were drawn.
\<close>

datatype quantile_figure =
    No_figure string
  | Figure "(string \<times> trial_key list list) list"

definition plot_from_align_types ::
  "plot_calls \<Rightarrow> align_type_table \<Rightarrow> behavior_trial list \<Rightarrow> latent_row list
     \<Rightarrow> unit_key \<Rightarrow> nat \<Rightarrow> string list \<Rightarrow> nat option \<Rightarrow> py_error + quantile_figure" where
  "plot_from_align_types lib AlignType BehaviorTrial df key n_quantile align_types axs =
     (case cut_into_quantiles (qcut lib) df n_quantile of
        Inl e \<Rightarrow> Inl e
      | Inr (Printed_and_returned msg) \<Rightarrow> Inr (No_figure msg)
      | Inr (Ranked ranked n_quantile') \<Rightarrow>
          (case (case axs of
                   None \<Rightarrow> create_axes lib (length align_types)
                 | Some n_columns \<Rightarrow> Inr n_columns) of
             Inl e \<Rightarrow> Inl e
           | Inr n_columns \<Rightarrow>
               (case groups_per_align_type lib AlignType BehaviorTrial key ranked
                       n_quantile' n_columns 0 align_types of
                  Inl e \<Rightarrow> Inl e
                | Inr groups \<Rightarrow>
                    if n_columns = 0 then Inl IndexError
                    else if align_types = []
                      then Inl (UnboundLocalError ''ax_psth'')
                    else Inr (Figure groups))))"

text \<open>
  The whole plot: its first statement is the alignment-type fallback, and nothing
  after it reads the list that was passed in.
\<close>

definition plot_unit_psth_latent_variable_quantile ::
  "plot_calls \<Rightarrow> trial_event list \<Rightarrow> align_type_table \<Rightarrow> behavior_trial list
     \<Rightarrow> latent_row list \<Rightarrow> unit_key \<Rightarrow> nat \<Rightarrow> string list \<Rightarrow> nat option
     \<Rightarrow> py_error + quantile_figure" where
  "plot_unit_psth_latent_variable_quantile lib TrialEvent AlignType BehaviorTrial df key
       n_quantile align_types axs =
     plot_from_align_types lib AlignType BehaviorTrial df key n_quantile
       (fallback_align_types TrialEvent key align_types) axs"

subsection \<open>Example tables\<close>

text \<open>
  Unit 541 of session 47 (the default \<^verbatim>\<open>unit_key\<close> of the plots), an event and a
  behaviour trial of that session, and a latent-variable row.
\<close>

definition unit_541 :: unit_key where
  "unit_541 = \<lparr>subject_id = 473361, session = 47, insertion_number = 1,
               clustering_method = ''kilosort2'', unit = 541\<rparr>"

definition event_of_type :: "string \<Rightarrow> trial_event" where
  "event_of_type t = \<lparr>subject_id = 473361, session = 47, trial = 1, trial_event_id = 0,
                      trial_event_type = t, trial_event_time = 0\<rparr>"

definition behavior_trial_no :: "int \<Rightarrow> behavior_trial" where
  "behavior_trial_no t =
     \<lparr>subject_id = 473361, session = 47, trial = t, task = ''foraging'', task_protocol = 100,
      trial_instruction = ''none'', early_lick = ''no early'', outcome = ''hit'',
      auto_water = False, free_water = False\<rparr>"

definition latent_at :: "int \<Rightarrow> py_float \<Rightarrow> latent_row" where
  "latent_at t v = \<lparr>lv_trial = t, lv_value = v\<rparr>"

definition ranked_at :: "int \<Rightarrow> py_float \<Rightarrow> nat option \<Rightarrow> ranked_row" where
  "ranked_at t v k = \<lparr>lv_trial = t, lv_value = v, quantile_rank = k\<rparr>"

text \<open>
  Four behaviour trials of session 47, and a ranked frame whose rank-0 group is the
  trials 1, 2 and 4.
\<close>

definition example_behavior_trials :: "behavior_trial list" where
  "example_behavior_trials = map behavior_trial_no [1, 2, 3, 4]"

definition example_ranked_df :: "ranked_row list" where
  "example_ranked_df =
     [ranked_at 1 (Finite 1) (Some 0), ranked_at 2 (Finite 1) (Some 0),
      ranked_at 3 (Finite 5) (Some 1), ranked_at 4 (Finite 2) (Some 0)]"

definition trial_key_no :: "int \<Rightarrow> trial_key" where
  "trial_key_no t = \<lparr>subject_id = 473361, session = 47, trial = t\<rparr>"

text \<open>Collaborators that all return, with \<open>pd_qcut\<close> for the library call.\<close>

definition example_plot_calls :: plot_calls where
  "example_plot_calls =
     \<lparr>qcut = pd_qcut, figure_header = None,
      compute_unit_psth_and_raster = (\<lambda>key trials align_type. None),
      draw_axis = (\<lambda>align_type. None)\<rparr>"

section \<open>Properties of PhotostimBrainRegion\<close>

lemma remdups_single:
  assumes "xs \<noteq> []" and "\<forall>x\<in>set xs. x = a"
  shows "remdups xs = [a]"
proof -
  have "set xs = {a}" using assms by (cases xs) auto
  then have "set (remdups xs) = {a}" and "distinct (remdups xs)" by simp_all
  then have "length (remdups xs) = 1"
    by (metis One_nat_def card.empty card_insert_if distinct_card empty_iff finite.emptyI)
  then obtain y where y: "remdups xs = [y]"
    by (cases "remdups xs") auto
  with \<open>set (remdups xs) = {a}\<close> show ?thesis by simp
qed

lemma make_single_area:
  assumes rows: "restrict_locations PhotostimLocation key = rows" and ne: "rows \<noteq> []"
    and area: "\<forall>r\<in>set rows. brain_area r = a"
  shows "PhotostimBrainRegion_make PhotostimLocation key self =
           (case laterality_of (map ml_location rows) of
              Inl e \<Rightarrow> Inl e
            | Inr lat \<Rightarrow> Inr (self @ [\<lparr>region_key = key, stim_brain_area = a,
                                         stim_laterality = lat\<rparr>]))"
proof -
  have "remdups (map brain_area rows) = [a]"
    using ne area by (intro remdups_single) auto
  moreover obtain r rs where "rows = r # rs" using ne by (cases rows) auto
  moreover have "brain_area r = a" using area \<open>rows = r # rs\<close> by simp
  ultimately show ?thesis
    by (simp add: PhotostimBrainRegion_make_def rows Let_def split: sum.splits)
qed

lemma laterality_both:
  "\<exists>m\<in>set ms. 0 < m \<Longrightarrow> \<exists>m\<in>set ms. m < 0 \<Longrightarrow> laterality_of ms = Inr ''both''"
  by (auto simp: laterality_of_def list_ex_iff)

lemma laterality_right:
  "ms \<noteq> [] \<Longrightarrow> \<forall>m\<in>set ms. 0 < m \<Longrightarrow> laterality_of ms = Inr ''right''"
  by (cases ms) (auto simp: laterality_of_def list_ex_iff list_all_iff)

lemma laterality_left:
  "ms \<noteq> [] \<Longrightarrow> \<forall>m\<in>set ms. m < 0 \<Longrightarrow> laterality_of ms = Inr ''left''"
  by (cases ms) (auto simp: laterality_of_def list_ex_iff list_all_iff)

lemma laterality_zero:
  "ms \<noteq> [] \<Longrightarrow> \<forall>m\<in>set ms. m = 0 \<Longrightarrow>
     laterality_of ms = Inl (ValueError ''Ambiguous hemisphere: ML locations are all 0...'')"
  by (cases ms) (auto simp: laterality_of_def list_ex_iff list_all_iff)

text \<open>
  C2. For the rows of one protocol (at least one row, all reporting one brain area):
  a positive and a negative medial coordinate give laterality "both", all positive
  "right", all negative "left", and all exactly 0 the ambiguous-hemisphere error. The
  row inserted carries the protocol key, the common area and the laterality.
\<close>

theorem laterality_resolution:
  assumes rows: "restrict_locations PhotostimLocation key = rows" and ne: "rows \<noteq> []"
    and area: "\<forall>r\<in>set rows. brain_area r = a"
  shows "((\<exists>r\<in>set rows. 0 < ml_location r) \<and> (\<exists>r\<in>set rows. ml_location r < 0) \<longrightarrow>
            PhotostimBrainRegion_make PhotostimLocation key self =
              Inr (self @ [\<lparr>region_key = key, stim_brain_area = a,
                             stim_laterality = ''both''\<rparr>])) \<and>
         ((\<forall>r\<in>set rows. 0 < ml_location r) \<longrightarrow>
            PhotostimBrainRegion_make PhotostimLocation key self =
              Inr (self @ [\<lparr>region_key = key, stim_brain_area = a,
                             stim_laterality = ''right''\<rparr>])) \<and>
         ((\<forall>r\<in>set rows. ml_location r < 0) \<longrightarrow>
            PhotostimBrainRegion_make PhotostimLocation key self =
              Inr (self @ [\<lparr>region_key = key, stim_brain_area = a,
                             stim_laterality = ''left''\<rparr>])) \<and>
         ((\<forall>r\<in>set rows. ml_location r = 0) \<longrightarrow>
            PhotostimBrainRegion_make PhotostimLocation key self =
              Inl (ValueError ''Ambiguous hemisphere: ML locations are all 0...''))"
proof -
  note make = make_single_area [OF rows ne area, of self]
  have mls: "map ml_location rows \<noteq> []" using ne by simp
  have both: "laterality_of (map ml_location rows) = Inr ''both''"
    if "\<exists>r\<in>set rows. 0 < ml_location r" "\<exists>r\<in>set rows. ml_location r < 0"
    using that by (intro laterality_both) auto
  have right: "laterality_of (map ml_location rows) = Inr ''right''"
    if "\<forall>r\<in>set rows. 0 < ml_location r"
    using that mls by (intro laterality_right) auto
  have left: "laterality_of (map ml_location rows) = Inr ''left''"
    if "\<forall>r\<in>set rows. ml_location r < 0"
    using that mls by (intro laterality_left) auto
  have zero: "laterality_of (map ml_location rows) =
                Inl (ValueError ''Ambiguous hemisphere: ML locations are all 0...'')"
    if "\<forall>r\<in>set rows. ml_location r = 0"
    using that mls by (intro laterality_zero) auto
  show ?thesis
    using both right left zero by (simp add: make)
qed

text \<open>
  The examples of the specification: locations of protocol 1 with the medial
  coordinates [5, -3], [5, 7], [-1] and [0, 0], all in area ALM, and an empty table.
\<close>

theorem laterality_resolution_witness:
  "PhotostimBrainRegion_make
     [location_at protocol_1 1 5 ''ALM'', location_at protocol_1 2 (- 3) ''ALM''] protocol_1 [] =
     Inr [\<lparr>region_key = protocol_1, stim_brain_area = ''ALM'', stim_laterality = ''both''\<rparr>] \<and>
   PhotostimBrainRegion_make
     [location_at protocol_1 1 5 ''ALM'', location_at protocol_1 2 7 ''ALM''] protocol_1 [] =
     Inr [\<lparr>region_key = protocol_1, stim_brain_area = ''ALM'', stim_laterality = ''right''\<rparr>] \<and>
   PhotostimBrainRegion_make [location_at protocol_1 1 (- 1) ''ALM''] protocol_1 [] =
     Inr [\<lparr>region_key = protocol_1, stim_brain_area = ''ALM'', stim_laterality = ''left''\<rparr>] \<and>
   PhotostimBrainRegion_make
     [location_at protocol_1 1 0 ''ALM'', location_at protocol_1 2 0 ''ALM''] protocol_1 [] =
     Inl (ValueError ''Ambiguous hemisphere: ML locations are all 0...'')"
proof -
  have rows: "restrict_locations
                [location_at protocol_1 1 x ''ALM'', location_at protocol_1 2 y ''ALM'']
                protocol_1 =
              [location_at protocol_1 1 x ''ALM'', location_at protocol_1 2 y ''ALM'']" for x y
    by (simp add: restrict_locations_def location_at_def)
  have row: "restrict_locations [location_at protocol_1 1 x ''ALM''] protocol_1 =
             [location_at protocol_1 1 x ''ALM'']" for x
    by (simp add: restrict_locations_def location_at_def)
  have c1: "PhotostimBrainRegion_make
     [location_at protocol_1 1 5 ''ALM'', location_at protocol_1 2 (- 3) ''ALM''] protocol_1 [] =
     Inr [\<lparr>region_key = protocol_1, stim_brain_area = ''ALM'', stim_laterality = ''both''\<rparr>]"
    using laterality_resolution [OF rows, of 5 "- 3" "''ALM''" "[]"]
    by (simp add: location_at_def)
  have c2: "PhotostimBrainRegion_make
     [location_at protocol_1 1 5 ''ALM'', location_at protocol_1 2 7 ''ALM''] protocol_1 [] =
     Inr [\<lparr>region_key = protocol_1, stim_brain_area = ''ALM'', stim_laterality = ''right''\<rparr>]"
    using laterality_resolution [OF rows, of 5 7 "''ALM''" "[]"]
    by (simp add: location_at_def)
  have c3: "PhotostimBrainRegion_make [location_at protocol_1 1 (- 1) ''ALM''] protocol_1 [] =
     Inr [\<lparr>region_key = protocol_1, stim_brain_area = ''ALM'', stim_laterality = ''left''\<rparr>]"
    using laterality_resolution [OF row, of "- 1" "''ALM''" "[]"]
    by (simp add: location_at_def)
  have c4: "PhotostimBrainRegion_make
     [location_at protocol_1 1 0 ''ALM'', location_at protocol_1 2 0 ''ALM''] protocol_1 [] =
     Inl (ValueError ''Ambiguous hemisphere: ML locations are all 0...'')"
    using laterality_resolution [OF rows, of 0 0 "''ALM''" "[]"]
    by (simp add: location_at_def)
  from c1 c2 c3 c4 show ?thesis by blast
qed

text \<open>
  C8. When the rows of a protocol report more than one distinct brain area,
  \<^verbatim>\<open>make\<close> raises the configuration error and the table is left as it was. When
  they all report one area, whatever \<^verbatim>\<open>make\<close> inserts is a single row carrying
  that area, and it does insert one whenever the laterality resolves.
\<close>

theorem brain_area_consistency:
  assumes rows: "restrict_locations PhotostimLocation key = rows"
  shows "(1 < card (brain_area ` set rows) \<longrightarrow>
            PhotostimBrainRegion_make PhotostimLocation key self =
              Inl (ValueError
                ''Multiple different brain areas for one photostim protocol is unsupported'') \<and>
            table_after self (PhotostimBrainRegion_make PhotostimLocation key self) = self) \<and>
         (rows \<noteq> [] \<and> (\<forall>r\<in>set rows. brain_area r = a) \<longrightarrow>
            (\<forall>tbl. PhotostimBrainRegion_make PhotostimLocation key self = Inr tbl \<longrightarrow>
               (\<exists>lat. tbl = self @ [\<lparr>region_key = key, stim_brain_area = a,
                                       stim_laterality = lat\<rparr>])) \<and>
            (\<forall>lat. laterality_of (map ml_location rows) = Inr lat \<longrightarrow>
               PhotostimBrainRegion_make PhotostimLocation key self =
                 Inr (self @ [\<lparr>region_key = key, stim_brain_area = a,
                                stim_laterality = lat\<rparr>])))"
proof (intro conjI impI)
  assume many: "1 < card (brain_area ` set rows)"
  have "length (remdups (map brain_area rows)) = card (brain_area ` set rows)"
    by (simp add: length_remdups_card_conv)
  with many show "PhotostimBrainRegion_make PhotostimLocation key self =
      Inl (ValueError
        ''Multiple different brain areas for one photostim protocol is unsupported'')"
    by (simp add: PhotostimBrainRegion_make_def rows Let_def)
  then show "table_after self (PhotostimBrainRegion_make PhotostimLocation key self) = self"
    by (simp add: table_after_def)
next
  assume one: "rows \<noteq> [] \<and> (\<forall>r\<in>set rows. brain_area r = a)"
  then have make: "PhotostimBrainRegion_make PhotostimLocation key self =
           (case laterality_of (map ml_location rows) of
              Inl e \<Rightarrow> Inl e
            | Inr lat \<Rightarrow> Inr (self @ [\<lparr>region_key = key, stim_brain_area = a,
                                         stim_laterality = lat\<rparr>]))"
    using make_single_area [OF rows] by blast
  show "\<forall>tbl. PhotostimBrainRegion_make PhotostimLocation key self = Inr tbl \<longrightarrow>
          (\<exists>lat. tbl = self @ [\<lparr>region_key = key, stim_brain_area = a,
                                  stim_laterality = lat\<rparr>])"
    by (auto simp: make split: sum.splits)
  show "\<forall>lat. laterality_of (map ml_location rows) = Inr lat \<longrightarrow>
          PhotostimBrainRegion_make PhotostimLocation key self =
            Inr (self @ [\<lparr>region_key = key, stim_brain_area = a,
                           stim_laterality = lat\<rparr>])"
    by (simp add: make)
qed

text \<open>
  Two locations of protocol 1 in different areas are refused and nothing is
  inserted; two in area ALM on opposite sides insert one ALM row.
\<close>

theorem brain_area_consistency_witness:
  "PhotostimBrainRegion_make
     [location_at protocol_1 1 5 ''ALM'', location_at protocol_1 2 (- 3) ''Thalamus''] protocol_1 [] =
     Inl (ValueError
       ''Multiple different brain areas for one photostim protocol is unsupported'') \<and>
   table_after []
     (PhotostimBrainRegion_make
        [location_at protocol_1 1 5 ''ALM'', location_at protocol_1 2 (- 3) ''Thalamus'']
        protocol_1 []) = [] \<and>
   PhotostimBrainRegion_make
     [location_at protocol_1 1 5 ''ALM'', location_at protocol_1 2 (- 3) ''ALM''] protocol_1 [] =
     Inr [\<lparr>region_key = protocol_1, stim_brain_area = ''ALM'', stim_laterality = ''both''\<rparr>]"
proof -
  have rows: "restrict_locations [location_at protocol_1 1 x u, location_at protocol_1 2 y v]
                protocol_1 =
              [location_at protocol_1 1 x u, location_at protocol_1 2 y v]" for x y u v
    by (simp add: restrict_locations_def location_at_def)
  have two: "card {''ALM'', ''Thalamus''} = 2" by simp
  have lat: "laterality_of [5, - 3] = Inr ''both''"
    by (simp add: laterality_of_def)
  show ?thesis
    using brain_area_consistency [OF rows, of 5 "''ALM''" "- 3" "''Thalamus''" "[]" "''ALM''"]
          brain_area_consistency [OF rows, of 5 "''ALM''" "- 3" "''ALM''" "[]" "''ALM''"]
          two lat
    by (simp add: location_at_def table_after_def)
qed

section \<open>Properties of the Breathing segmentation\<close>

subsection \<open>Indexing and slicing\<close>

lemma np_index_nth: "i < length xs \<Longrightarrow> np_index xs (int i) = Inr (xs ! i)"
  by (simp add: np_index_def)

lemma np_index_last: "xs \<noteq> [] \<Longrightarrow> np_index xs (- 1) = Inr (last xs)"
  by (cases xs rule: rev_cases) (simp_all add: np_index_def nth_append)

lemma np_index_succ: "Suc i < length xs \<Longrightarrow> np_index xs (int i + 1) = Inr (xs ! Suc i)"
  using np_index_nth [of "Suc i" xs] by (simp add: add.commute)

lemma py_slice_range:
  assumes "a \<le> b" and "b \<le> length xs"
  shows "py_slice xs (int a) (int b) = samples_between xs a b"
proof -
  have "py_slice xs (int a) (int b) = take (b - a) (drop a xs)"
    using assms by (simp add: py_slice_def Let_def min_def nat_diff_distrib')
  also have "\<dots> = map ((!) xs) [a ..< b]"
    using assms by (auto simp: list_eq_iff_nth_eq)
  finally show ?thesis by (simp add: samples_between_def)
qed

lemma py_slice_to_minus_one:
  assumes "a < length xs"
  shows "py_slice xs (int a) (- 1) = samples_between xs a (length xs - 1)"
proof -
  have "nat (int (length xs) - 1 - int a) = length xs - 1 - a"
    using assms by arith
  then have "py_slice xs (int a) (- 1) = take (length xs - 1 - a) (drop a xs)"
    using assms by (simp add: py_slice_def Let_def min_def max_def)
  also have "\<dots> = map ((!) xs) [a ..< length xs - 1]"
    using assms by (auto simp: list_eq_iff_nth_eq)
  finally show ?thesis by (simp add: samples_between_def)
qed

lemma samples_between_all: "samples_between row a (length row) = drop a row"
  by (auto simp: samples_between_def list_eq_iff_nth_eq)

lemma samples_between_snoc:
  assumes "a < length row"
  shows "samples_between row a (length row - 1) @ [last row] = samples_between row a (length row)"
proof -
  have ne: "row \<noteq> []" using assms by auto
  have "a \<le> length row - 1" using assms by simp
  then have "[a ..< Suc (length row - 1)] = [a ..< length row - 1] @ [length row - 1]"
    by (rule upt_Suc_append)
  moreover have "Suc (length row - 1) = length row" using ne by simp
  ultimately show ?thesis
    using ne by (simp add: samples_between_def last_conv_nth)
qed

text \<open>Consecutive ranges between sorted cut points join into one range.\<close>

lemma concat_consecutive_ranges:
  assumes "sorted cuts" and "cuts \<noteq> []"
  shows "concat (map (\<lambda>i. samples_between row (cuts ! i) (cuts ! Suc i)) [0 ..< length cuts - 1]) =
           samples_between row (hd cuts) (last cuts)"
  using assms
proof (induction cuts rule: rev_induct)
  case Nil
  then show ?case by simp
next
  case (snoc c cs)
  show ?case
  proof (cases "cs = []")
    case True
    then show ?thesis by (simp add: samples_between_def)
  next
    case False
    then have len: "length cs - 1 < length cs" by (cases cs) auto
    have sorted_cs: "sorted cs" using snoc.prems by (simp add: sorted_append)
    have le: "last cs \<le> c" using snoc.prems False by (simp add: sorted_append)
    have hd_le: "hd cs \<le> last cs"
      using sorted_cs False len
      by (simp add: hd_conv_nth last_conv_nth sorted_iff_nth_mono)
    have upt: "[0 ..< length cs] = [0 ..< length cs - 1] @ [length cs - 1]"
      using upt_Suc_append [of 0 "length cs - 1"] False by simp
    have body: "map (\<lambda>i. samples_between row ((cs @ [c]) ! i) ((cs @ [c]) ! Suc i))
                  [0 ..< length cs - 1] =
                map (\<lambda>i. samples_between row (cs ! i) (cs ! Suc i)) [0 ..< length cs - 1]"
      by (rule map_cong) (auto simp: nth_append)
    have final: "(cs @ [c]) ! (length cs - 1) = last cs" "(cs @ [c]) ! Suc (length cs - 1) = c"
      using False len by (simp_all add: nth_append last_conv_nth)
    have join: "[hd cs ..< last cs] @ [last cs ..< c] = [hd cs ..< c]"
      using hd_le le by (metis le_Suc_ex upt_add_eq_append)
    have "concat (map (\<lambda>i. samples_between row ((cs @ [c]) ! i) ((cs @ [c]) ! Suc i))
                    [0 ..< length (cs @ [c]) - 1]) =
          concat (map (\<lambda>i. samples_between row ((cs @ [c]) ! i) ((cs @ [c]) ! Suc i))
                    [0 ..< length cs - 1])
            @ samples_between row ((cs @ [c]) ! (length cs - 1)) ((cs @ [c]) ! Suc (length cs - 1))"
      by (simp add: upt)
    also have "\<dots> =
          concat (map (\<lambda>i. samples_between row (cs ! i) (cs ! Suc i)) [0 ..< length cs - 1])
            @ samples_between row (last cs) c"
      by (simp only: body final)
    also have "\<dots> = samples_between row (hd cs) (last cs) @ samples_between row (last cs) c"
      using snoc.IH [OF sorted_cs False] by simp
    also have "\<dots> = samples_between row (hd cs) c"
      using join by (simp add: samples_between_def flip: map_append)
    finally show ?thesis using False by simp
  qed
qed

subsection \<open>The loop\<close>

lemma below_last_not_final:
  assumes "idx < length (starts :: int list)" and "starts ! idx < last starts"
  shows "Suc idx < length starts"
proof (rule ccontr)
  assume "\<not> Suc idx < length starts"
  with assms(1) have "idx = length starts - 1" by simp
  moreover have "starts \<noteq> []" using assms(1) by auto
  ultimately have "starts ! idx = last starts" by (simp add: last_conv_nth)
  with assms(2) show False by simp
qed

text \<open>
  The loop never raises: the next start is read only below the last start, which
  the final iteration is not.
\<close>

lemma segment_loop_map:
  assumes "\<forall>idx\<in>set idxs. idx < length starts"
  shows "segment_loop starts data idxs acc =
           Inr (acc @ map (\<lambda>idx. slice_columns_flatten data (starts ! idx)
                                    (end_index starts idx)) idxs)"
  using assms
proof (induction idxs arbitrary: acc)
  case Nil
  then show ?case by simp
next
  case (Cons idx rest)
  then have lt: "idx < length starts" by simp
  then have ne: "starts \<noteq> []" by auto
  show ?case
  proof (cases "starts ! idx < last starts")
    case True
    then have "Suc idx < length starts" using lt below_last_not_final by blast
    then show ?thesis
      using Cons True lt ne
      by (simp add: np_index_nth np_index_last np_index_succ end_index_def)
  next
    case False
    then show ?thesis
      using Cons lt ne
      by (simp add: np_index_nth np_index_last end_index_def)
  qed
qed

lemma segment_trials_map:
  "segment_trials starts data =
     Inr (map (\<lambda>idx. slice_columns_flatten data (starts ! idx) (end_index starts idx))
            [0 ..< length starts])"
  unfolding segment_trials_def by (subst segment_loop_map) simp_all

text \<open>\<^verbatim>\<open>chanList\<close> names one channel, so the array that is segmented has one row.\<close>

lemma one_channel_row:
  "select_channels rawData chanList = Inr data \<Longrightarrow> \<exists>row. data = [row]"
  by (auto simp: chanList_def split: sum.splits)

text \<open>
  C1. For one channel row and strictly increasing start indices inside the row, the
  loop returns one segment per trial; segment \<open>i\<close> before the last holds exactly
  the samples at \<open>[start i, start (i+1))\<close>. The last segment is cut with the end
  index \<^verbatim>\<open>-1\<close>, so it holds the samples at \<open>[start (n-1), length - 1)\<close>: the
  final sample of the stream is in no segment. It has to be appended to the last
  segment to obtain \<open>[start (n-1), end of stream)\<close>, and to the concatenation of the
  segments to obtain the stream from \<open>start 0\<close> onward.
\<close>

theorem segment_trials_boundaries:
  fixes row :: "'a list" and starts :: "int list"
  assumes inc: "sorted_wrt (<) starts" and ne: "starts \<noteq> []"
    and lo: "0 \<le> hd starts" and hi: "last starts < int (length row)"
  shows "\<exists>segs. segment_trials starts [row] = Inr segs \<and> length segs = length starts \<and>
           (\<forall>i. Suc i < length starts \<longrightarrow>
              segs ! i = samples_between row (nat (starts ! i)) (nat (starts ! Suc i))) \<and>
           last segs = samples_between row (nat (last starts)) (length row - 1) \<and>
           last segs @ [last row] = samples_between row (nat (last starts)) (length row) \<and>
           concat segs = samples_between row (nat (hd starts)) (length row - 1) \<and>
           concat segs @ [last row] = drop (nat (hd starts)) row"
proof -
  define n where "n = length starts"
  define cuts where "cuts = map nat starts @ [length row - 1]"
  define segs where "segs = map (\<lambda>i. samples_between row (cuts ! i) (cuts ! Suc i)) [0 ..< n]"
  have n_pos: "0 < n" using ne by (simp add: n_def)
  have last_nth: "last starts = starts ! (n - 1)"
    using ne by (simp add: last_conv_nth n_def)
  have hd_nth: "hd starts = starts ! 0" using ne by (simp add: hd_conv_nth)
  have mono: "starts ! i < starts ! j" if "i < j" "j < n" for i j
    using inc that by (simp add: sorted_wrt_iff_nth_less n_def)
  have nonneg: "0 \<le> starts ! i" if "i < n" for i
  proof (cases "i = 0")
    case True
    then show ?thesis using lo hd_nth by simp
  next
    case False
    then have "starts ! 0 < starts ! i" using mono that by simp
    then show ?thesis using lo hd_nth by simp
  qed
  have below: "starts ! i \<le> last starts" if "i < n" for i
  proof (cases "i = n - 1")
    case True
    then show ?thesis using last_nth by simp
  next
    case False
    then have "starts ! i < starts ! (n - 1)" using mono [of i "n - 1"] that by simp
    then show ?thesis using last_nth by simp
  qed
  have in_row: "nat (starts ! i) < length row" if "i < n" for i
    using below [OF that] nonneg [OF that] hi by linarith
  have cuts_nth: "cuts ! i = nat (starts ! i)" if "i < n" for i
    using that by (simp add: cuts_def nth_append n_def)
  have cuts_last: "cuts ! n = length row - 1"
    by (simp add: cuts_def nth_append n_def)
  have seg: "slice_columns_flatten [row] (starts ! i) (end_index starts i) =
               samples_between row (cuts ! i) (cuts ! Suc i)" if "i < n" for i
  proof (cases "Suc i < n")
    case True
    then have lt: "starts ! i < starts ! Suc i" using mono by simp
    have "starts ! i < last starts"
      using lt below [OF True] by simp
    then have "end_index starts i = starts ! Suc i"
      by (simp add: end_index_def)
    moreover have "py_slice row (int (nat (starts ! i))) (int (nat (starts ! Suc i))) =
                     samples_between row (nat (starts ! i)) (nat (starts ! Suc i))"
      using lt in_row [OF True] by (intro py_slice_range) simp_all
    ultimately show ?thesis
      using nonneg [OF that] nonneg [OF True] cuts_nth [OF that] cuts_nth [OF True]
      by (simp add: slice_columns_flatten_def)
  next
    case False
    then have i: "i = n - 1" using that by simp
    then have "end_index starts i = - 1"
      using last_nth by (simp add: end_index_def)
    moreover have "py_slice row (int (nat (starts ! i))) (- 1) =
                     samples_between row (nat (starts ! i)) (length row - 1)"
      using in_row [OF that] by (rule py_slice_to_minus_one)
    moreover have "Suc i = n" using i n_pos by simp
    ultimately show ?thesis
      using nonneg [OF that] cuts_nth [OF that] cuts_last
      by (simp add: slice_columns_flatten_def)
  qed
  have run: "segment_trials starts [row] = Inr segs"
    unfolding segment_trials_map segs_def n_def [symmetric]
    using seg by simp
  have len: "length segs = length starts" by (simp add: segs_def n_def)
  have inner: "segs ! i = samples_between row (nat (starts ! i)) (nat (starts ! Suc i))"
    if "Suc i < length starts" for i
    using that cuts_nth [of i] cuts_nth [of "Suc i"] by (simp add: segs_def n_def)
  have final: "last segs = samples_between row (nat (last starts)) (length row - 1)"
  proof -
    have "segs \<noteq> []" using n_pos by (simp add: segs_def)
    then have "last segs = segs ! (n - 1)" by (simp add: last_conv_nth segs_def)
    also have "\<dots> = samples_between row (cuts ! (n - 1)) (cuts ! n)"
      using n_pos by (simp add: segs_def)
    finally show ?thesis
      using cuts_nth [of "n - 1"] cuts_last n_pos last_nth by simp
  qed
  have len_cuts: "length cuts = Suc n" by (simp add: cuts_def n_def)
  have cuts_mono: "cuts ! i \<le> cuts ! j" if "i \<le> j" "j < length cuts" for i j
  proof (cases "j = n")
    case True
    show ?thesis
    proof (cases "i = n")
      case True
      with \<open>j = n\<close> show ?thesis by simp
    next
      case False
      then have "i < n" using that True by simp
      then show ?thesis
        using in_row [of i] cuts_nth [of i] cuts_last True by simp
    qed
  next
    case False
    then have j: "j < n" using that len_cuts by simp
    then have i: "i < n" using that by simp
    have "starts ! i \<le> starts ! j"
      using mono [of i j] that j by (cases "i = j") simp_all
    then show ?thesis using cuts_nth [OF i] cuts_nth [OF j] by simp
  qed
  then have sorted_cuts: "sorted cuts" by (simp add: sorted_iff_nth_mono)
  have cat: "concat segs = samples_between row (nat (hd starts)) (length row - 1)"
  proof -
    have "length cuts - 1 = n" by (simp add: len_cuts)
    moreover have "cuts \<noteq> []" by (simp add: cuts_def)
    moreover have "hd cuts = nat (hd starts)" using ne by (simp add: cuts_def hd_append hd_map)
    moreover have "last cuts = length row - 1" by (simp add: cuts_def)
    ultimately show ?thesis
      using concat_consecutive_ranges [OF sorted_cuts, of row]
      by (simp add: segs_def)
  qed
  have final': "last segs @ [last row] = samples_between row (nat (last starts)) (length row)"
    using final samples_between_snoc [of "nat (last starts)" row] in_row [of "n - 1"] n_pos last_nth
    by simp
  have cat': "concat segs @ [last row] = drop (nat (hd starts)) row"
    using cat samples_between_snoc [of "nat (hd starts)" row] in_row [of 0] n_pos hd_nth
    by (simp add: samples_between_all)
  from run len inner final final' cat cat' show ?thesis by blast
qed

text \<open>
  Trial starts 0 and 2 in a five-sample stream: the segments are [10, 20] and
  [30, 40]; the last sample 50 is lost, so the segments do not rebuild the stream.
\<close>

theorem segment_trials_boundaries_witness:
  "sorted_wrt (<) [0, 2 :: int] \<and> 0 \<le> hd [0, 2 :: int] \<and>
   last [0, 2 :: int] < int (length [10, 20, 30, 40, 50 :: int]) \<and>
   segment_trials [0, 2] [[10, 20, 30, 40, 50 :: int]] = Inr [[10, 20], [30, 40]] \<and>
   concat [[10, 20], [30, 40 :: int]] @ [50] = [10, 20, 30, 40, 50] \<and>
   concat [[10, 20], [30, 40 :: int]] \<noteq> [10, 20, 30, 40, 50]"
proof -
  have inc: "sorted_wrt (<) [0, 2 :: int]" by simp
  have ne: "[0, 2 :: int] \<noteq> []" by simp
  have lo: "0 \<le> hd [0, 2 :: int]" by simp
  have hi: "last [0, 2 :: int] < int (length [10, 20, 30, 40, 50 :: int])" by simp
  obtain segs where run: "segment_trials [0, 2] [[10, 20, 30, 40, 50 :: int]] = Inr segs"
    and len: "length segs = length [0, 2 :: int]"
    and first: "\<forall>i. Suc i < length [0, 2 :: int] \<longrightarrow>
           segs ! i = samples_between [10, 20, 30, 40, 50 :: int]
                        (nat ([0, 2] ! i)) (nat ([0, 2] ! Suc i))"
    and final: "last segs = samples_between [10, 20, 30, 40, 50 :: int] (nat (last [0, 2]))
                  (length [10, 20, 30, 40, 50 :: int] - 1)"
    using segment_trials_boundaries [OF inc ne lo hi] by blast
  have "segs ! 0 = [10, 20]"
    using first by (simp add: samples_between_def upt_rec)
  moreover have "last segs = [30, 40]"
    using final by (simp add: samples_between_def upt_rec)
  moreover obtain s0 s1 where "segs = [s0, s1]"
    using len by (cases segs; cases "tl segs") auto
  ultimately have "segs = [[10, 20], [30, 40]]" by simp
  with run inc lo hi show ?thesis by simp
qed

subsection \<open>Gain correction\<close>

lemma scale_array_nth:
  "i < length data \<Longrightarrow> j < length (data ! i) \<Longrightarrow>
     scale_array float64_mul c data ! i ! j = float64_mul c (data ! i ! j)"
  by (simp add: scale_array_def)

text \<open>
  C5. Whatever the samples are: when the metadata declare the sensor type "imec" the
  result is the probe correction \<^verbatim>\<open>GainCorrectIM\<close> with every sample multiplied (in
  float64) by \<open>10^6\<close>; for any other declared type it is the analog-input correction
  \<^verbatim>\<open>GainCorrectNI\<close> with every sample multiplied by \<open>10^3\<close>; without a declared
  type \<^verbatim>\<open>make\<close> raises \<^verbatim>\<open>KeyError\<close> rather than guess one. And this is what
  \<^verbatim>\<open>make\<close> segments: once the trial start times, the metadata, the sample rate,
  the raw samples and the breathing channel are there, \<^verbatim>\<open>all_trials_data\<close> is the
  segmentation of the corrected and scaled channel, by the branch the declared type
  selects.
\<close>

theorem gain_correction_branch:
  "(meta ''typeThis'' = Some ''imec'' \<longrightarrow>
      gain_correct float64_mul ext data chans meta =
        (case GainCorrectIM ext data chans meta of
           Inl e \<Rightarrow> Inl e
         | Inr corrected \<Rightarrow> Inr (map (map (float64_mul 1000000)) corrected))) \<and>
   (\<forall>t. meta ''typeThis'' = Some t \<and> t \<noteq> ''imec'' \<longrightarrow>
      gain_correct float64_mul ext data chans meta =
        (case GainCorrectNI ext data chans meta of
           Inl e \<Rightarrow> Inl e
         | Inr corrected \<Rightarrow> Inr (map (map (float64_mul 1000)) corrected))) \<and>
   (meta ''typeThis'' = None \<longrightarrow>
      gain_correct float64_mul ext data chans meta = Inl (KeyError ''typeThis'')) \<and>
   (\<forall>times sRate rawData channel.
      session_trial_start_times ext key = Inr times \<and>
      readMeta ext binFullPath = Inr meta \<and>
      SampRate ext meta = Inr sRate \<and>
      makeMemMapRaw ext binFullPath meta = Inr rawData \<and>
      select_channels rawData chanList = Inr channel \<longrightarrow>
        (\<forall>corrected.
           meta ''typeThis'' = Some ''imec'' \<and>
           GainCorrectIM ext channel chanList meta = Inr corrected \<longrightarrow>
             Breathing_all_trials_data float64_mul ext key =
               segment_trials (map (\<lambda>t. astype_int (float64_mul t sRate)) times)
                 (map (map (float64_mul 1000000)) corrected)) \<and>
        (\<forall>t corrected.
           meta ''typeThis'' = Some t \<and> t \<noteq> ''imec'' \<and>
           GainCorrectNI ext channel chanList meta = Inr corrected \<longrightarrow>
             Breathing_all_trials_data float64_mul ext key =
               segment_trials (map (\<lambda>t. astype_int (float64_mul t sRate)) times)
                 (map (map (float64_mul 1000)) corrected)) \<and>
        (meta ''typeThis'' = None \<longrightarrow>
           Breathing_all_trials_data float64_mul ext key = Inl (KeyError ''typeThis'')))"
proof (intro conjI allI impI)
  assume "meta ''typeThis'' = Some ''imec''"
  then show "gain_correct float64_mul ext data chans meta =
        (case GainCorrectIM ext data chans meta of
           Inl e \<Rightarrow> Inl e
         | Inr corrected \<Rightarrow> Inr (map (map (float64_mul 1000000)) corrected))"
    by (simp add: gain_correct_def scale_array_def split: sum.splits)
next
  fix t
  assume "meta ''typeThis'' = Some t \<and> t \<noteq> ''imec''"
  then show "gain_correct float64_mul ext data chans meta =
        (case GainCorrectNI ext data chans meta of
           Inl e \<Rightarrow> Inl e
         | Inr corrected \<Rightarrow> Inr (map (map (float64_mul 1000)) corrected))"
    by (auto simp: gain_correct_def scale_array_def split: sum.splits)
next
  assume "meta ''typeThis'' = None"
  then show "gain_correct float64_mul ext data chans meta = Inl (KeyError ''typeThis'')"
    by (simp add: gain_correct_def)
next
  fix times sRate rawData channel corrected
  assume run: "session_trial_start_times ext key = Inr times \<and>
      readMeta ext binFullPath = Inr meta \<and>
      SampRate ext meta = Inr sRate \<and>
      makeMemMapRaw ext binFullPath meta = Inr rawData \<and>
      select_channels rawData chanList = Inr channel"
    and imec: "meta ''typeThis'' = Some ''imec'' \<and>
      GainCorrectIM ext channel chanList meta = Inr corrected"
  then show "Breathing_all_trials_data float64_mul ext key =
               segment_trials (map (\<lambda>t. astype_int (float64_mul t sRate)) times)
                 (map (map (float64_mul 1000000)) corrected)"
    by (simp add: Breathing_all_trials_data_def gain_correct_def scale_array_def)
next
  fix times sRate rawData channel t corrected
  assume run: "session_trial_start_times ext key = Inr times \<and>
      readMeta ext binFullPath = Inr meta \<and>
      SampRate ext meta = Inr sRate \<and>
      makeMemMapRaw ext binFullPath meta = Inr rawData \<and>
      select_channels rawData chanList = Inr channel"
    and other: "meta ''typeThis'' = Some t \<and> t \<noteq> ''imec'' \<and>
      GainCorrectNI ext channel chanList meta = Inr corrected"
  then show "Breathing_all_trials_data float64_mul ext key =
               segment_trials (map (\<lambda>t. astype_int (float64_mul t sRate)) times)
                 (map (map (float64_mul 1000)) corrected)"
    by (simp add: Breathing_all_trials_data_def gain_correct_def scale_array_def)
next
  fix times sRate rawData channel
  assume run: "session_trial_start_times ext key = Inr times \<and>
      readMeta ext binFullPath = Inr meta \<and>
      SampRate ext meta = Inr sRate \<and>
      makeMemMapRaw ext binFullPath meta = Inr rawData \<and>
      select_channels rawData chanList = Inr channel"
    and none: "meta ''typeThis'' = None"
  then show "Breathing_all_trials_data float64_mul ext key = Inl (KeyError ''typeThis'')"
    by (simp add: Breathing_all_trials_data_def gain_correct_def)
qed

subsection \<open>The run of \<^verbatim>\<open>make\<close> on the example acquisition\<close>

lemma example_trial_start_times:
  "session_trial_start_times example_collaborators key = Inr [0, 1]"
  by (simp add: session_trial_start_times_def example_collaborators_def)

lemma example_channel:
  "select_channels example_raw chanList = Inr [[10, 20, 30, 40, 50]]"
  by (simp add: example_raw_def chanList_def np_index_def)

lemma example_segments:
  "segment_trials [0, 2] [[a, b, c, d, e]] = Inr [[a, b], [c, d]]"
  by (simp add: segment_trials_def np_index_def slice_columns_flatten_def py_slice_def upt_rec)

lemma example_indices: "map (\<lambda>t. astype_int (exact_mul t 2)) [0, 1] = [0, 2]"
  by (simp add: astype_int_def exact_mul_def)

lemma example_all_trials_data:
  "Breathing_all_trials_data exact_mul example_collaborators key =
     Inr [[1250, 2500], [3750, 5000]]"
proof -
  have meta: "readMeta example_collaborators binFullPath = Inr example_meta"
    and rate: "SampRate example_collaborators example_meta = Inr 2"
    and raw: "makeMemMapRaw example_collaborators binFullPath example_meta = Inr example_raw"
    by (simp_all add: example_collaborators_def)
  have gain: "gain_correct exact_mul example_collaborators [[10, 20, 30, 40, 50]] chanList
                example_meta = Inr [[1250, 2500, 3750, 5000, 6250]]"
    by (simp add: gain_correct_def example_meta_def example_collaborators_def scale_array_def
        exact_mul_def)
  show ?thesis
    unfolding Breathing_all_trials_data_def
    by (simp only: example_trial_start_times meta rate raw example_channel gain
        example_indices example_segments Let_def sum.case)
qed

text \<open>
  The example acquisition twice, with the same samples 10 .. 50 in channel 2: declared
  "nidq" the segments hold the analog-input correction (a sample divided by 8) times
  \<open>10^3\<close>, declared "imec" the probe correction (a sample divided by 16) times
  \<open>10^6\<close>.
\<close>

theorem gain_correction_branch_witness:
  "example_meta ''typeThis'' = Some ''nidq'' \<and> ''nidq'' \<noteq> ''imec'' \<and>
   Breathing_all_trials_data exact_mul example_collaborators session_1 =
     Inr [[1250, 2500], [3750, 5000]] \<and>
   Breathing_all_trials_data exact_mul imec_collaborators session_1 =
     Inr [[625000, 1250000], [1875000, 2500000]] \<and>
   gain_correct exact_mul example_collaborators [[10, 20, 30, 40, 50]] chanList Map.empty =
     Inl (KeyError ''typeThis'')"
proof -
  have nidq: "example_meta ''typeThis'' = Some ''nidq'' \<and> ''nidq'' \<noteq> ''imec''"
    by (simp add: example_meta_def)
  have run: "session_trial_start_times example_collaborators session_1 = Inr [0, 1] \<and>
      readMeta example_collaborators binFullPath = Inr example_meta \<and>
      SampRate example_collaborators example_meta = Inr 2 \<and>
      makeMemMapRaw example_collaborators binFullPath example_meta = Inr example_raw \<and>
      select_channels example_raw chanList = Inr [[10, 20, 30, 40, 50]]"
    by (simp add: example_trial_start_times example_channel) (simp add: example_collaborators_def)
  have ni: "GainCorrectNI example_collaborators [[10, 20, 30, 40, 50]] chanList example_meta =
              Inr [[5 / 4, 5 / 2, 15 / 4, 5, 25 / 4]]"
    by (simp add: example_collaborators_def)
  have "Breathing_all_trials_data exact_mul example_collaborators session_1 =
          segment_trials (map (\<lambda>t. astype_int (exact_mul t 2)) [0, 1])
            (map (map (exact_mul 1000)) [[5 / 4, 5 / 2, 15 / 4, 5, 25 / 4]])"
    using gain_correction_branch [of example_meta exact_mul example_collaborators
            "[[10, 20, 30, 40, 50]]" chanList session_1] nidq run ni
    by blast
  then have first: "Breathing_all_trials_data exact_mul example_collaborators session_1 =
                      Inr [[1250, 2500], [3750, 5000]]"
    by (simp add: exact_mul_def astype_int_def example_segments)
  have imec: "[''typeThis'' \<mapsto> ''imec''] ''typeThis'' = Some ''imec''"
    by simp
  have run': "session_trial_start_times imec_collaborators session_1 = Inr [0, 1] \<and>
      readMeta imec_collaborators binFullPath = Inr [''typeThis'' \<mapsto> ''imec''] \<and>
      SampRate imec_collaborators [''typeThis'' \<mapsto> ''imec''] = Inr 2 \<and>
      makeMemMapRaw imec_collaborators binFullPath [''typeThis'' \<mapsto> ''imec''] =
        Inr example_raw \<and>
      select_channels example_raw chanList = Inr [[10, 20, 30, 40, 50]]"
    by (simp add: example_channel)
       (simp add: imec_collaborators_def example_collaborators_def
          session_trial_start_times_def)
  have im: "GainCorrectIM imec_collaborators [[10, 20, 30, 40, 50]] chanList
              [''typeThis'' \<mapsto> ''imec''] =
              Inr [[5 / 8, 5 / 4, 15 / 8, 5 / 2, 25 / 8]]"
    by (simp add: imec_collaborators_def example_collaborators_def)
  have "Breathing_all_trials_data exact_mul imec_collaborators session_1 =
          segment_trials (map (\<lambda>t. astype_int (exact_mul t 2)) [0, 1])
            (map (map (exact_mul 1000000)) [[5 / 8, 5 / 4, 15 / 8, 5 / 2, 25 / 8]])"
    using gain_correction_branch [of "[''typeThis'' \<mapsto> ''imec'']" exact_mul
            imec_collaborators "[[10, 20, 30, 40, 50]]" chanList session_1] imec run' im
    by blast
  then have second: "Breathing_all_trials_data exact_mul imec_collaborators session_1 =
                       Inr [[625000, 1250000], [1875000, 2500000]]"
    by (simp add: exact_mul_def astype_int_def example_segments)
  have none: "(Map.empty :: sglx_meta) ''typeThis'' = None" by simp
  have third: "gain_correct exact_mul example_collaborators [[10, 20, 30, 40, 50]] chanList
                 Map.empty = Inl (KeyError ''typeThis'')"
    using gain_correction_branch [of Map.empty exact_mul example_collaborators
            "[[10, 20, 30, 40, 50]]" chanList session_1] none
    by blast
  from nidq first second third show ?thesis by blast
qed

text \<open>
  C9. Whenever the segmentation completes, the final statement raises
  \<^verbatim>\<open>TypeError\<close>; no run of \<^verbatim>\<open>make\<close> returns normally, and every run leaves
  the Breathing table as it found it.
\<close>

theorem breathing_make_never_inserts:
  "(\<forall>all_trials_data.
      Breathing_all_trials_data float64_mul ext key = Inr all_trials_data \<longrightarrow>
      Breathing_make float64_mul ext key self = Inl (TypeError method_not_subscriptable)) \<and>
   (\<forall>tbl. Breathing_make float64_mul ext key self \<noteq> Inr tbl) \<and>
   table_after self (Breathing_make float64_mul ext key self) = self"
  by (auto simp: Breathing_make_def self_insert_def table_after_def split: sum.splits)

text \<open>
  On the example acquisition the segments are computed and then lost to the
  \<^verbatim>\<open>TypeError\<close>; a table holding one row still holds that row.
\<close>

theorem breathing_make_never_inserts_witness:
  "Breathing_all_trials_data exact_mul example_collaborators session_1 =
     Inr [[1250, 2500], [3750, 5000]] \<and>
   Breathing_make exact_mul example_collaborators session_1
       [\<lparr>trial_of = 1, breathing = [1], breathing_timestamps = [0]\<rparr>] =
     Inl (TypeError method_not_subscriptable) \<and>
   table_after [\<lparr>trial_of = 1, breathing = [1], breathing_timestamps = [0]\<rparr>]
     (Breathing_make exact_mul example_collaborators session_1
        [\<lparr>trial_of = 1, breathing = [1], breathing_timestamps = [0]\<rparr>]) =
     [\<lparr>trial_of = 1, breathing = [1], breathing_timestamps = [0]\<rparr>]"
  using breathing_make_never_inserts
          [of exact_mul example_collaborators session_1
              "[\<lparr>trial_of = 1, breathing = [1], breathing_timestamps = [0]\<rparr>]"]
        example_all_trials_data [of session_1]
  by (simp add: table_after_def)

text \<open>
  C10. The metadata and the samples are read at \<^verbatim>\<open>binFullPath\<close> for every session
  key. Two runs, for any two keys and under any two sets of collaborators that agree
  on what that one path holds (and on the sample-rate and gain functions), compute the
  same segments as soon as the two sessions decode to the same trial start times:
  what the session's own folder holds beyond its bitcode does not matter.
\<close>

theorem breathing_file_is_constant:
  assumes "readMeta ext2 binFullPath = readMeta ext1 binFullPath"
    and "makeMemMapRaw ext2 binFullPath = makeMemMapRaw ext1 binFullPath"
    and "SampRate ext2 = SampRate ext1"
    and "GainCorrectIM ext2 = GainCorrectIM ext1"
    and "GainCorrectNI ext2 = GainCorrectNI ext1"
    and "session_trial_start_times ext2 key2 = session_trial_start_times ext1 key1"
  shows "Breathing_all_trials_data float64_mul ext2 key2 =
         Breathing_all_trials_data float64_mul ext1 key1"
proof -
  have gain: "gain_correct float64_mul ext2 = gain_correct float64_mul ext1"
    by (intro ext) (simp only: gain_correct_def assms(4,5))
  show ?thesis
    by (simp only: Breathing_all_trials_data_def assms(1,2,3,6) gain)
qed

text \<open>
  Sessions 1 and 2 have different session folders; the run for session 2 is made
  where every other path, its own folder included, holds a different (probe)
  recording. Both runs give the segments of the file at \<^verbatim>\<open>binFullPath\<close>.
\<close>

theorem breathing_file_is_constant_witness:
  "session_1 \<noteq> session_2 \<and>
   makeMemMapRaw other_files_collaborators
       ''F:/rig2/DL004/2021-03-09/run_g0_t0.nidq.bin'' example_meta \<noteq>
     makeMemMapRaw example_collaborators
       ''F:/rig2/DL004/2021-03-09/run_g0_t0.nidq.bin'' example_meta \<and>
   Breathing_all_trials_data exact_mul other_files_collaborators session_2 =
     Breathing_all_trials_data exact_mul example_collaborators session_1 \<and>
   Breathing_all_trials_data exact_mul example_collaborators session_1 =
     Inr [[1250, 2500], [3750, 5000]]"
proof -
  have differ: "session_1 \<noteq> session_2"
    by (simp add: session_1_def session_2_def)
  have other: "makeMemMapRaw other_files_collaborators
                 ''F:/rig2/DL004/2021-03-09/run_g0_t0.nidq.bin'' example_meta \<noteq>
               makeMemMapRaw example_collaborators
                 ''F:/rig2/DL004/2021-03-09/run_g0_t0.nidq.bin'' example_meta"
    by (simp add: other_files_collaborators_def example_collaborators_def binFullPath_def
        path_join_def)
  have meta: "readMeta other_files_collaborators binFullPath =
              readMeta example_collaborators binFullPath"
    and raw: "makeMemMapRaw other_files_collaborators binFullPath =
              makeMemMapRaw example_collaborators binFullPath"
    and rate: "SampRate other_files_collaborators = SampRate example_collaborators"
    and im: "GainCorrectIM other_files_collaborators = GainCorrectIM example_collaborators"
    and ni: "GainCorrectNI other_files_collaborators = GainCorrectNI example_collaborators"
    by (simp_all add: other_files_collaborators_def example_collaborators_def)
  have times: "session_trial_start_times other_files_collaborators session_2 =
               session_trial_start_times example_collaborators session_1"
    by (simp add: session_trial_start_times_def other_files_collaborators_def
        example_collaborators_def)
  from breathing_file_is_constant [OF meta raw rate im ni times, of exact_mul] differ other
    example_all_trials_data [of session_1]
  show ?thesis by simp
qed

section \<open>Properties of the foraging plots\<close>

subsection \<open>Alignment-type fallback\<close>

text \<open>\<open>py_in\<close> is the substring test.\<close>

lemma py_in_iff: "py_in needle hay \<longleftrightarrow> (\<exists>pre suf. hay = pre @ needle @ suf)"
proof (induction hay)
  case Nil
  then show ?case by auto
next
  case (Cons c cs)
  have here: "take (length needle) (c # cs) = needle \<longleftrightarrow> (\<exists>suf. c # cs = needle @ suf)"
    by (metis append_eq_conv_conj append_take_drop_id)
  have split: "(\<exists>pre suf. c # cs = pre @ needle @ suf) \<longleftrightarrow>
                 (\<exists>suf. c # cs = needle @ suf) \<or> (\<exists>pre suf. cs = pre @ needle @ suf)"
  proof
    assume "\<exists>pre suf. c # cs = pre @ needle @ suf"
    then obtain pre suf where eq: "c # cs = pre @ needle @ suf" by blast
    show "(\<exists>suf. c # cs = needle @ suf) \<or> (\<exists>pre suf. cs = pre @ needle @ suf)"
    proof (cases pre)
      case Nil
      with eq show ?thesis by auto
    next
      case (Cons p ps)
      with eq have "cs = ps @ needle @ suf" by simp
      then show ?thesis by blast
    qed
  next
    assume "(\<exists>suf. c # cs = needle @ suf) \<or> (\<exists>pre suf. cs = pre @ needle @ suf)"
    then show "\<exists>pre suf. c # cs = pre @ needle @ suf"
    proof
      assume "\<exists>suf. c # cs = needle @ suf"
      then show ?thesis by (metis append_Nil)
    next
      assume "\<exists>pre suf. cs = pre @ needle @ suf"
      then obtain pre suf where "cs = pre @ needle @ suf" by blast
      then have "c # cs = (c # pre) @ needle @ suf" by simp
      then show ?thesis by blast
    qed
  qed
  from here split Cons.IH show ?case by simp
qed

text \<open>
  C3. In both plots: when the unit's session has no "zaberready" event, the list
  keeps its length and order, every name containing "trial_start" gets the suffix
  "_bitcode" and every other name is unchanged; when the session has at least one
  such event, the list is used as given. The test is made once, for the whole list:
  everything after it in the quantile plot works on the list it leaves.
\<close>

theorem alignment_fallback:
  "(zaberready_events TrialEvent key = [] \<longrightarrow>
      length (fallback_align_types TrialEvent key align_types) = length align_types \<and>
      (\<forall>i < length align_types.
         fallback_align_types TrialEvent key align_types ! i =
           (if \<exists>pre suf. align_types ! i = pre @ ''trial_start'' @ suf
            then align_types ! i @ ''_bitcode'' else align_types ! i))) \<and>
   (zaberready_events TrialEvent key \<noteq> [] \<longrightarrow>
      fallback_align_types TrialEvent key align_types = align_types) \<and>
   plot_unit_psth_choice_outcome_align_types TrialEvent key align_types =
     fallback_align_types TrialEvent key align_types \<and>
   (\<forall>lib df AlignType BehaviorTrial n_quantile axs.
      plot_unit_psth_latent_variable_quantile lib TrialEvent AlignType BehaviorTrial df key
          n_quantile align_types axs =
        plot_from_align_types lib AlignType BehaviorTrial df key n_quantile
          (fallback_align_types TrialEvent key align_types) axs)"
proof (intro conjI impI allI)
  assume none: "zaberready_events TrialEvent key = []"
  then show "length (fallback_align_types TrialEvent key align_types) = length align_types"
    by (simp add: fallback_align_types_def)
  fix i
  assume "i < length align_types"
  with none show "fallback_align_types TrialEvent key align_types ! i =
      (if \<exists>pre suf. align_types ! i = pre @ ''trial_start'' @ suf
       then align_types ! i @ ''_bitcode'' else align_types ! i)"
    by (simp add: fallback_align_types_def py_in_iff)
next
  assume "zaberready_events TrialEvent key \<noteq> []"
  then show "fallback_align_types TrialEvent key align_types = align_types"
    by (simp add: fallback_align_types_def)
next
  show "plot_unit_psth_choice_outcome_align_types TrialEvent key align_types =
          fallback_align_types TrialEvent key align_types"
    by (simp add: plot_unit_psth_choice_outcome_align_types_def)
next
  fix lib df AlignType BehaviorTrial n_quantile axs
  show "plot_unit_psth_latent_variable_quantile lib TrialEvent AlignType BehaviorTrial df key
          n_quantile align_types axs =
        plot_from_align_types lib AlignType BehaviorTrial df key n_quantile
          (fallback_align_types TrialEvent key align_types) axs"
    by (simp only: plot_unit_psth_latent_variable_quantile_def)
qed

text \<open>
  Unit 541 of session 47. With only a "go" event recorded for the session the
  default list is rewritten at its first and last name; with a "zaberready" event
  it is kept.
\<close>

theorem alignment_fallback_witness:
  "zaberready_events [event_of_type ''go''] unit_541 = [] \<and>
   fallback_align_types [event_of_type ''go''] unit_541 default_align_types =
     [''trial_start_bitcode'', ''go_cue'', ''first_lick_after_go_cue'', ''iti_start'',
      ''next_trial_start_bitcode''] \<and>
   zaberready_events [event_of_type ''zaberready''] unit_541 \<noteq> [] \<and>
   fallback_align_types [event_of_type ''zaberready''] unit_541 default_align_types =
     default_align_types"
proof -
  have none: "zaberready_events [event_of_type ''go''] unit_541 = []"
    by (simp add: zaberready_events_def event_of_type_def)
  have some: "zaberready_events [event_of_type ''zaberready''] unit_541 \<noteq> []"
    by (simp add: zaberready_events_def event_of_type_def unit_541_def same_session_def)
  have kept: "fallback_align_types [event_of_type ''zaberready''] unit_541 default_align_types =
                default_align_types"
    using alignment_fallback [of "[event_of_type ''zaberready'']" unit_541 default_align_types]
      some by blast
  have rewritten: "fallback_align_types [event_of_type ''go''] unit_541 default_align_types =
     [''trial_start_bitcode'', ''go_cue'', ''first_lick_after_go_cue'', ''iti_start'',
      ''next_trial_start_bitcode'']"
    using none by (simp add: fallback_align_types_def default_align_types_def)
  from none some kept rewritten show ?thesis by blast
qed

subsection \<open>The NaN guard of the quantile cut\<close>

lemma isnan_iff: "isnan x \<longleftrightarrow> x = NaN"
  by (cases x) simp_all

lemma guard_iff: "list_ex isnan (map lv_value df) \<longleftrightarrow> (\<exists>r\<in>set df. lv_value r = NaN)"
proof -
  have "list_ex isnan (map lv_value df) \<longleftrightarrow> (\<exists>r\<in>set df. isnan (lv_value r))"
    by (induction df) simp_all
  also have "\<dots> \<longleftrightarrow> (\<exists>r\<in>set df. lv_value r = NaN)"
    by (simp only: isnan_iff)
  finally show ?thesis .
qed

lemma map2_add_quantile_rank:
  assumes "length ranks = length df"
  shows "map lv_trial (map2 add_quantile_rank df ranks) = map lv_trial df"
    and "map lv_value (map2 add_quantile_rank df ranks) = map lv_value df"
    and "map quantile_rank (map2 add_quantile_rank df ranks) = ranks"
  using assms
  by (induction df ranks rule: list_induct2') (simp_all add: add_quantile_rank_def)

text \<open>
  C4, as the code has it. One NaN value anywhere in the series stops the whole plot:
  the message is printed, no row is ranked and no group is formed, whatever the
  library, the tables, the alignment types and the axes are. Only a series without
  NaN goes to \<^verbatim>\<open>pd.qcut\<close>, all of it: an exception of the call is the exception of
  the plot, and when the call returns one rank per value, every row keeps its trial
  and value and receives its rank.
\<close>

theorem nan_guard:
  "((\<exists>r\<in>set df. lv_value r = NaN) \<longrightarrow>
      cut_into_quantiles qcut_call df n_quantile =
        Inr (Printed_and_returned ''No latent variable data or too few unique values'') \<and>
      plot_unit_psth_latent_variable_quantile lib TrialEvent AlignType BehaviorTrial df key
          n_quantile align_types axs =
        Inr (No_figure ''No latent variable data or too few unique values'')) \<and>
   (\<not> (\<exists>r\<in>set df. lv_value r = NaN) \<longrightarrow>
      (\<forall>e. qcut_call (map lv_value df) n_quantile = Inl e \<longrightarrow>
         cut_into_quantiles qcut_call df n_quantile = Inl e) \<and>
      (\<forall>ranks. qcut_call (map lv_value df) n_quantile = Inr ranks \<and>
                length ranks = length df \<longrightarrow>
         (\<exists>rows. cut_into_quantiles qcut_call df n_quantile =
                    Inr (Ranked rows (length (unique ranks))) \<and>
            map lv_trial rows = map lv_trial df \<and> map lv_value rows = map lv_value df \<and>
            map quantile_rank rows = ranks)))"
proof (intro conjI impI allI)
  assume nan: "\<exists>r\<in>set df. lv_value r = NaN"
  then show "cut_into_quantiles qcut_call df n_quantile =
        Inr (Printed_and_returned ''No latent variable data or too few unique values'')"
    using guard_iff [of df] by (simp add: cut_into_quantiles_def)
  from nan have "cut_into_quantiles (qcut lib) df n_quantile =
        Inr (Printed_and_returned ''No latent variable data or too few unique values'')"
    using guard_iff [of df] by (simp add: cut_into_quantiles_def)
  then show "plot_unit_psth_latent_variable_quantile lib TrialEvent AlignType BehaviorTrial
          df key n_quantile align_types axs =
        Inr (No_figure ''No latent variable data or too few unique values'')"
    by (simp add: plot_unit_psth_latent_variable_quantile_def plot_from_align_types_def)
next
  fix e
  assume "\<not> (\<exists>r\<in>set df. lv_value r = NaN)"
    and "qcut_call (map lv_value df) n_quantile = Inl e"
  then show "cut_into_quantiles qcut_call df n_quantile = Inl e"
    using guard_iff [of df] by (simp add: cut_into_quantiles_def)
next
  fix ranks
  assume no_nan: "\<not> (\<exists>r\<in>set df. lv_value r = NaN)"
    and ranks: "qcut_call (map lv_value df) n_quantile = Inr ranks \<and>
                length ranks = length df"
  then have "cut_into_quantiles qcut_call df n_quantile =
        Inr (Ranked (map2 add_quantile_rank df ranks) (length (unique ranks)))"
    using guard_iff [of df] by (simp add: cut_into_quantiles_def)
  then show "\<exists>rows. cut_into_quantiles qcut_call df n_quantile =
                    Inr (Ranked rows (length (unique ranks))) \<and>
            map lv_trial rows = map lv_trial df \<and> map lv_value rows = map lv_value df \<and>
            map quantile_rank rows = ranks"
    using ranks map2_add_quantile_rank [of ranks df] by blast
qed

text \<open>
  Trials 1 to 4 with the values 1, NaN, 2, 3 and two quantiles: nothing is ranked.
  Without the NaN row the three values 1, 2, 3 go to the library, whose ranks 0, 0, 1
  (edges 1, 2, 3) the rows receive. An empty frame has no NaN either, and the
  \<^verbatim>\<open>IndexError\<close> of the library on an empty series is the outcome.
\<close>

theorem nan_guard_witness:
  "cut_into_quantiles pd_qcut
     [latent_at 1 (Finite 1), latent_at 2 NaN, latent_at 3 (Finite 2), latent_at 4 (Finite 3)] 2 =
     Inr (Printed_and_returned ''No latent variable data or too few unique values'') \<and>
   pd_qcut [Finite 1, Finite 2, Finite 3] 2 = Inr [Some 0, Some 0, Some 1] \<and>
   cut_into_quantiles pd_qcut
     [latent_at 1 (Finite 1), latent_at 3 (Finite 2), latent_at 4 (Finite 3)] 2 =
     Inr (Ranked [ranked_at 1 (Finite 1) (Some 0), ranked_at 3 (Finite 2) (Some 0),
                  ranked_at 4 (Finite 3) (Some 1)] 2) \<and>
   pd_qcut [] 5 = Inl IndexError \<and>
   cut_into_quantiles pd_qcut [] 5 = Inl IndexError"
proof -
  have has_nan: "\<exists>r\<in>set [latent_at 1 (Finite 1), latent_at 2 NaN, latent_at 3 (Finite 2),
                            latent_at 4 (Finite 3)]. lv_value r = NaN"
    by (simp add: latent_at_def)
  have refused: "cut_into_quantiles pd_qcut
     [latent_at 1 (Finite 1), latent_at 2 NaN, latent_at 3 (Finite 2), latent_at 4 (Finite 3)] 2 =
     Inr (Printed_and_returned ''No latent variable data or too few unique values'')"
    using nan_guard
            [of "[latent_at 1 (Finite 1), latent_at 2 NaN, latent_at 3 (Finite 2),
                  latent_at 4 (Finite 3)]" pd_qcut 2]
          has_nan
    by blast
  have no_nan: "\<not> (\<exists>r\<in>set [latent_at 1 (Finite 1), latent_at 3 (Finite 2),
                               latent_at 4 (Finite 3)]. lv_value r = NaN)"
    by (simp add: latent_at_def)
  have ranks: "pd_qcut [Finite 1, Finite 2, Finite 3] 2 = Inr [Some 0, Some 0, Some 1]"
    by code_simp
  have vals: "map lv_value [latent_at 1 (Finite 1), latent_at 3 (Finite 2),
                            latent_at 4 (Finite 3)] = [Finite 1, Finite 2, Finite 3]"
    by (simp add: latent_at_def)
  obtain rows where rows: "cut_into_quantiles pd_qcut
       [latent_at 1 (Finite 1), latent_at 3 (Finite 2), latent_at 4 (Finite 3)] 2 =
       Inr (Ranked rows (length (unique [Some 0, Some 0, Some (1::nat)])))"
    and trials: "map lv_trial rows =
       map lv_trial [latent_at 1 (Finite 1), latent_at 3 (Finite 2), latent_at 4 (Finite 3)]"
    and kept: "map lv_value rows =
       map lv_value [latent_at 1 (Finite 1), latent_at 3 (Finite 2), latent_at 4 (Finite 3)]"
    and rks: "map quantile_rank rows = [Some 0, Some 0, Some 1]"
    using nan_guard
            [of "[latent_at 1 (Finite 1), latent_at 3 (Finite 2), latent_at 4 (Finite 3)]"
                pd_qcut 2]
          no_nan ranks vals
    by auto
  have two: "length (unique [Some 0, Some 0, Some (1::nat)]) = 2"
    by (simp add: unique_def)
  have cut: "cut_into_quantiles pd_qcut
     [latent_at 1 (Finite 1), latent_at 3 (Finite 2), latent_at 4 (Finite 3)] 2 =
     Inr (Ranked [ranked_at 1 (Finite 1) (Some 0), ranked_at 3 (Finite 2) (Some 0),
                  ranked_at 4 (Finite 3) (Some 1)] 2)"
    using rows two ranks vals
    by (simp add: cut_into_quantiles_def latent_at_def ranked_at_def add_quantile_rank_def)
  have empty: "pd_qcut [] 5 = Inl IndexError"
    by (simp add: pd_qcut_def)
  have no_nan_empty: "\<not> (\<exists>r\<in>set ([] :: latent_row list). lv_value r = NaN)"
    by simp
  have empty_cut: "cut_into_quantiles pd_qcut [] 5 = Inl IndexError"
    using nan_guard [of "[]" pd_qcut 5] no_nan_empty empty by simp
  from refused ranks cut empty empty_cut show ?thesis by blast
qed

text \<open>
  The claim of C4, that the finite entries of a series with a NaN entry are still
  partitioned, fails on the series 1, NaN, 2, 3: the result is the printed message,
  not a ranking, and the plot ends without a figure.
\<close>

theorem finite_entries_not_partitioned_counterexample:
  "cut_into_quantiles pd_qcut
     [latent_at 1 (Finite 1), latent_at 2 NaN, latent_at 3 (Finite 2), latent_at 4 (Finite 3)] 2 =
     Inr (Printed_and_returned ''No latent variable data or too few unique values'') \<and>
   plot_unit_psth_latent_variable_quantile example_plot_calls [] Map.empty
     example_behavior_trials
     [latent_at 1 (Finite 1), latent_at 2 NaN, latent_at 3 (Finite 2), latent_at 4 (Finite 3)]
     unit_541 2 default_align_types None =
     Inr (No_figure ''No latent variable data or too few unique values'')"
  by (simp add: plot_unit_psth_latent_variable_quantile_def plot_from_align_types_def
      cut_into_quantiles_def latent_at_def)

subsection \<open>A series of identical values\<close>

lemma unique_replicate: "0 < n \<Longrightarrow> unique (replicate n x) = [x]"
proof -
  assume "0 < n"
  then have "rev (replicate n x) \<noteq> []" and "\<forall>y\<in>set (rev (replicate n x)). y = x"
    by simp_all
  then have "remdups (rev (replicate n x)) = [x]" by (rule remdups_single)
  then show ?thesis by (simp add: unique_def)
qed

text \<open>Every quantile of a constant series is that constant.\<close>

lemma quantile_score_constant:
  assumes "0 < n" and "0 \<le> q" and "q \<le> 1"
  shows "quantile_score (replicate n v) q = v"
proof -
  define idx where "idx = q * of_nat (n - 1)"
  have idx_lo: "0 \<le> idx" using assms by (simp add: idx_def)
  have idx_hi: "idx \<le> of_nat (n - 1)"
    using assms mult_left_le_one_le [of "of_nat (n - 1) :: rat" q]
    by (simp add: idx_def mult.commute)
  have floor_hi: "\<lfloor>idx\<rfloor> \<le> int (n - 1)"
    using idx_hi by (metis floor_mono floor_of_nat)
  have lo: "nat \<lfloor>idx\<rfloor> < n" using floor_hi assms(1) by linarith
  have hi: "Suc (nat \<lfloor>idx\<rfloor>) < n" if "idx - of_int \<lfloor>idx\<rfloor> \<noteq> 0"
  proof -
    have "idx \<noteq> of_nat (n - 1)" using that by auto
    with idx_hi have "idx < of_nat (n - 1)" by simp
    then have "\<lfloor>idx\<rfloor> < int (n - 1)" by (metis floor_less_iff of_int_of_nat_eq)
    moreover have "0 \<le> \<lfloor>idx\<rfloor>" using idx_lo by simp
    ultimately show ?thesis by linarith
  qed
  have unfold: "quantile_score (replicate n v) q =
          (if idx - of_int \<lfloor>idx\<rfloor> = 0 then replicate n v ! nat \<lfloor>idx\<rfloor>
           else replicate n v ! nat \<lfloor>idx\<rfloor> +
                (replicate n v ! Suc (nat \<lfloor>idx\<rfloor>) - replicate n v ! nat \<lfloor>idx\<rfloor>) *
                (idx - of_int \<lfloor>idx\<rfloor>))"
    by (simp only: quantile_score_def Let_def idx_def length_replicate)
  show ?thesis
  proof (cases "idx - of_int \<lfloor>idx\<rfloor> = 0")
    case True
    then show ?thesis unfolding unfold using lo by simp
  next
    case False
    then show ?thesis unfolding unfold using lo hi [OF False] by simp
  qed
qed

text \<open>
  So all bin edges coincide and, unless exactly two edges were asked for, a single
  edge is left, which bounds no bin.
\<close>

lemma qcut_bins_constant:
  assumes "0 < n"
  shows "qcut_bins (replicate n v) q = (if q = 1 then [v, v] else [v])"
proof -
  have sorted: "sort (replicate n v) = replicate n v"
    by (simp add: sorted_sort_id sorted_replicate)
  have score: "quantile_score (replicate n v) (of_nat j / of_nat q) = v" if "j < Suc q" for j
  proof (cases "q = 0")
    case True
    then show ?thesis using assms by (simp add: quantile_score_constant)
  next
    case False
    then have "(of_nat j :: rat) / of_nat q \<le> 1" using that by simp
    then show ?thesis using assms by (simp add: quantile_score_constant)
  qed
  have "map (\<lambda>j. quantile_score (sort (replicate n v)) (of_nat j / of_nat q)) [0 ..< Suc q] =
        map (\<lambda>j. v) [0 ..< Suc q]"
    unfolding sorted by (rule map_cong) (use score in auto)
  also have "\<dots> = replicate (Suc q) v" by (simp add: map_replicate_const)
  finally have bins: "map (\<lambda>j. quantile_score (sort (replicate n v)) (of_nat j / of_nat q))
                        [0 ..< Suc q] = replicate (Suc q) v" .
  have uniq: "unique (replicate (Suc q) v) = [v]" by (rule unique_replicate) simp
  show ?thesis
    unfolding qcut_bins_def bins Let_def uniq
    by (cases q; cases "q - 1") (simp_all add: numeral_2_eq_2)
qed

lemma pd_qcut_constant:
  assumes "0 < n"
  shows "pd_qcut (replicate n (Finite v)) q =
           Inr (replicate n (if q = 1 then Some 0 else None))"
proof -
  have fin: "finite_values (replicate n (Finite v)) = replicate n v"
    by (induction n) (simp_all add: finite_values_def)
  have ne: "replicate n v \<noteq> []" "replicate n (Finite v) \<noteq> []" using assms by simp_all
  have "bin_rank (if q = 1 then [v, v] else [v]) (Finite v) = (if q = 1 then Some 0 else None)"
    by (simp add: bin_rank_def)
  then show ?thesis
    using ne by (simp add: pd_qcut_def fin qcut_bins_constant [OF assms] map_replicate_const)
qed

lemma map2_replicate: "map2 f xs (replicate (length xs) y) = map (\<lambda>x. f x y) xs"
  by (induction xs) simp_all

text \<open>
  C6, what the code does. A series of identical finite values is not refused: the
  guard looks for NaN only, so whatever the library does the message is not printed
  and the series is cut. With the library's algorithm every row gets the same rank
  (NaN, or 0 when one quantile was asked for) and \<^verbatim>\<open>n_quantile\<close> becomes 1: the
  plot goes on with a single group, which for NaN ranks holds no trial at all.
\<close>

theorem identical_values_not_refused:
  assumes ne: "df \<noteq> []" and same: "\<forall>r\<in>set df. lv_value r = Finite v"
  shows "(\<forall>qcut_call msg.
            cut_into_quantiles qcut_call df n_quantile \<noteq> Inr (Printed_and_returned msg)) \<and>
         cut_into_quantiles pd_qcut df n_quantile =
           Inr (Ranked
                  (map (\<lambda>r. add_quantile_rank r (if n_quantile = 1 then Some 0 else None)) df)
                  1) \<and>
         (n_quantile \<noteq> 1 \<longrightarrow>
            (\<forall>BehaviorTrial key rank offset.
               this_trials BehaviorTrial key
                 (map (\<lambda>r. add_quantile_rank r None) df) rank offset = []))"
proof (intro conjI allI)
  have n: "0 < length df" using ne by simp
  have vals: "map lv_value df = replicate (length df) (Finite v)"
    using same by (simp add: map_replicate_const [symmetric])
  have no_nan: "\<not> list_ex isnan (map lv_value df)"
    by (simp add: vals list_ex_iff)
  have ranks: "pd_qcut (map lv_value df) n_quantile =
                 Inr (replicate (length df) (if n_quantile = 1 then Some 0 else None))"
    unfolding vals by (rule pd_qcut_constant [OF n])
  show "cut_into_quantiles qcut_call df n_quantile \<noteq> Inr (Printed_and_returned msg)"
    for qcut_call msg
    using no_nan by (simp add: cut_into_quantiles_def split: sum.splits)
  show "cut_into_quantiles pd_qcut df n_quantile =
          Inr (Ranked
                 (map (\<lambda>r. add_quantile_rank r (if n_quantile = 1 then Some 0 else None)) df)
                 1)"
    using no_nan n
    by (simp add: cut_into_quantiles_def ranks map2_replicate unique_replicate
        del: replicate.simps)
  show "n_quantile \<noteq> 1 \<longrightarrow>
          (\<forall>BehaviorTrial key rank offset.
             this_trials BehaviorTrial key
               (map (\<lambda>r. add_quantile_rank r None) df) rank offset = [])"
    by (simp add: this_trials_def trial_num_def add_quantile_rank_def filter_empty_conv
        list_ex_iff)
qed

text \<open>
  The example of the specification: 100 trials, each with the value 1/2, and five
  quantiles. All 100 rows are ranked NaN and one group is announced.
\<close>

theorem identical_values_not_refused_witness:
  "cut_into_quantiles pd_qcut (map (\<lambda>i. latent_at (int i) (Finite (1 / 2))) [1 ..< 101]) 5 =
     Inr (Ranked (map (\<lambda>i. ranked_at (int i) (Finite (1 / 2)) None) [1 ..< 101]) 1)"
proof -
  have ne: "map (\<lambda>i. latent_at (int i) (Finite (1 / 2))) [1 ..< 101] \<noteq> []"
    by simp
  have same: "\<forall>r\<in>set (map (\<lambda>i. latent_at (int i) (Finite (1 / 2))) [1 ..< 101]).
                lv_value r = Finite (1 / 2)"
    by (simp add: latent_at_def)
  have rows: "map (\<lambda>r. add_quantile_rank r (if (5::nat) = 1 then Some 0 else None))
                (map (\<lambda>i. latent_at (int i) (Finite (1 / 2))) [1 ..< 101]) =
              map (\<lambda>i. ranked_at (int i) (Finite (1 / 2)) None) [1 ..< 101]"
    by (simp add: add_quantile_rank_def latent_at_def ranked_at_def)
  from identical_values_not_refused [OF ne same, of 5] rows show ?thesis
    by simp
qed

subsection \<open>The trial offset\<close>

lemma this_trials_trials:
  "trial ` set (this_trials BehaviorTrial key df rank offset) =
     (\<lambda>t. t + offset) ` set (group_trials df rank) \<inter> set (available_trials BehaviorTrial key)"
proof -
  have sel: "set (this_trials BehaviorTrial key df rank offset) =
     {proj b | b. b \<in> set BehaviorTrial \<and> same_session b key \<and>
        (\<exists>r\<in>set df. quantile_rank r = Some rank \<and> lv_trial r + offset = trial b)}"
    by (auto simp: this_trials_def trial_num_def list_ex_iff)
  have shifted: "(\<lambda>t. t + offset) ` set (group_trials df rank) =
     {lv_trial r + offset | r. r \<in> set df \<and> quantile_rank r = Some rank}"
    by (auto simp: group_trials_def)
  have avail: "set (available_trials BehaviorTrial key) =
     {trial b | b. b \<in> set BehaviorTrial \<and> same_session b key}"
    by (auto simp: available_trials_def)
  have proj_trial: "trial (proj b) = trial b" for b :: behavior_trial
    by (simp add: proj_def)
  show ?thesis
  proof (intro equalityI subsetI)
    fix t
    assume "t \<in> trial ` set (this_trials BehaviorTrial key df rank offset)"
    then obtain b r where "b \<in> set BehaviorTrial" "same_session b key" "r \<in> set df"
      "quantile_rank r = Some rank" "lv_trial r + offset = trial b" "t = trial b"
      unfolding sel by (auto simp: proj_trial)
    moreover from this have "t = lv_trial r + offset" by simp
    ultimately show "t \<in> (\<lambda>t. t + offset) ` set (group_trials df rank)
                 \<inter> set (available_trials BehaviorTrial key)"
      unfolding shifted avail by blast
  next
    fix t
    assume "t \<in> (\<lambda>t. t + offset) ` set (group_trials df rank)
                 \<inter> set (available_trials BehaviorTrial key)"
    then obtain b r where "b \<in> set BehaviorTrial" "same_session b key" "r \<in> set df"
      "quantile_rank r = Some rank" "lv_trial r + offset = trial b" "t = trial b"
      unfolding shifted avail by force
    then have "proj b \<in> set (this_trials BehaviorTrial key df rank offset)"
      unfolding sel by blast
    then show "t \<in> trial ` set (this_trials BehaviorTrial key df rank offset)"
      using \<open>t = trial b\<close> proj_trial [of b] by (metis imageI)
  qed
qed

lemma this_trials_session:
  "\<forall>k\<in>set (this_trials BehaviorTrial key df rank offset). same_session k key"
  by (auto simp: this_trials_def proj_def same_session_def)

text \<open>
  C7. The trial numbers selected for a quantile group under an offset are exactly the
  group's trial numbers, each shifted by the offset, that are trials of the unit's
  session: a shifted number outside the session's trials selects nothing (it is not
  wrapped and not moved to the nearest trial), and nothing else is selected. When
  the group's trials are trials of the session, this is the selection under offset 0
  shifted by the offset and cut to the session's trials.
\<close>

theorem trial_offset_rule:
  "trial ` set (this_trials BehaviorTrial key df rank offset) =
     (\<lambda>t. t + offset) ` set (group_trials df rank) \<inter> set (available_trials BehaviorTrial key) \<and>
   (\<forall>k\<in>set (this_trials BehaviorTrial key df rank offset). same_session k key) \<and>
   (set (group_trials df rank) \<subseteq> set (available_trials BehaviorTrial key) \<longrightarrow>
      trial ` set (this_trials BehaviorTrial key df rank offset) =
        (\<lambda>t. t + offset) ` trial ` set (this_trials BehaviorTrial key df rank 0)
          \<inter> set (available_trials BehaviorTrial key))"
proof (intro conjI impI)
  show "trial ` set (this_trials BehaviorTrial key df rank offset) =
     (\<lambda>t. t + offset) ` set (group_trials df rank) \<inter> set (available_trials BehaviorTrial key)"
    by (rule this_trials_trials)
  show "\<forall>k\<in>set (this_trials BehaviorTrial key df rank offset). same_session k key"
    by (rule this_trials_session)
  assume sub: "set (group_trials df rank) \<subseteq> set (available_trials BehaviorTrial key)"
  have "trial ` set (this_trials BehaviorTrial key df rank 0) = set (group_trials df rank)"
    using sub this_trials_trials [of BehaviorTrial key df rank 0] by auto
  then show "trial ` set (this_trials BehaviorTrial key df rank offset) =
        (\<lambda>t. t + offset) ` trial ` set (this_trials BehaviorTrial key df rank 0)
          \<inter> set (available_trials BehaviorTrial key)"
    using this_trials_trials [of BehaviorTrial key df rank offset] by simp
qed

text \<open>
  Session 47 has the trials 1 to 4 and the rank-0 group is 1, 2, 4. Offset 0 selects
  1, 2, 4; offset 1 selects 2 and 3: the shifted number 5 is dropped, neither
  wrapped to 1 nor clamped to 4.
\<close>

theorem trial_offset_rule_witness:
  "set (group_trials example_ranked_df 0)
     \<subseteq> set (available_trials example_behavior_trials unit_541) \<and>
   this_trials example_behavior_trials unit_541 example_ranked_df 0 0 =
     [trial_key_no 1, trial_key_no 2, trial_key_no 4] \<and>
   this_trials example_behavior_trials unit_541 example_ranked_df 0 1 =
     [trial_key_no 2, trial_key_no 3] \<and>
   trial ` set (this_trials example_behavior_trials unit_541 example_ranked_df 0 1) =
     (\<lambda>t. t + 1) ` trial ` set (this_trials example_behavior_trials unit_541 example_ranked_df 0 0)
       \<inter> set (available_trials example_behavior_trials unit_541)"
proof -
  have sub: "set (group_trials example_ranked_df 0)
               \<subseteq> set (available_trials example_behavior_trials unit_541)"
    by code_simp
  have zero: "this_trials example_behavior_trials unit_541 example_ranked_df 0 0 =
                [trial_key_no 1, trial_key_no 2, trial_key_no 4]"
    by code_simp
  have one: "this_trials example_behavior_trials unit_541 example_ranked_df 0 1 =
               [trial_key_no 2, trial_key_no 3]"
    by code_simp
  from trial_offset_rule [of example_behavior_trials unit_541 example_ranked_df 0 1] sub
  have "trial ` set (this_trials example_behavior_trials unit_541 example_ranked_df 0 1) =
     (\<lambda>t. t + 1) ` trial ` set (this_trials example_behavior_trials unit_541 example_ranked_df 0 0)
       \<inter> set (available_trials example_behavior_trials unit_541)"
    by blast
  with sub zero one show ?thesis by blast
qed

end
